theory Spec2Isabelle
  imports Main "HOL-Library.AList" "HOL-Library.Char_ord" "HOL-Library.List_Lexorder"
begin

section \<open>Python values\<close>

text \<open>
  The exceptions the modelled functions can raise. \<open>StoreError\<close> stands for any exception
  raised by the remote database or storage client.
\<close>

datatype py_error = ValueError | TypeError | OverflowError | KeyError | AttributeError
  | ZeroDivisionError | JSONDecodeError | StoreError

text \<open>
  JSON values as Python holds them after \<open>json.loads\<close>, \<open>request.json\<close> or a database
  response: \<open>None\<close>, \<open>bool\<close>, \<open>int\<close>, \<open>float\<close>, \<open>str\<close>, \<open>list\<close> and \<open>dict\<close>. A dict is an
  association list in insertion order with distinct keys. The type \<open>'f\<close> is the type of
  Python floats; a string is the list of the bytes of its UTF-8 encoding (\<open>char list\<close>).
\<close>

datatype 'f json = JNull | JBool bool | JInt int | JFloat 'f | JStr string
  | JArr "'f json list" | JObj "(string \<times> 'f json) list"

type_synonym 'f pydict = "(string \<times> 'f json) list"

text \<open>
  Floating-point arithmetic is not modelled; the primitives the program uses on floats are
  parameters of the model, and every theorem holds for any choice of them:
  \<^item> \<open>f_lit\<close>: the value of a float literal of the source, given by its text;
  \<^item> \<open>f_of_int\<close>: the conversion of an \<open>int\<close> operand in mixed arithmetic;
  \<^item> \<open>f_float\<close>: the builtin \<open>float(x)\<close>, with the exception it raises;
  \<^item> \<open>f_add\<close>, \<open>f_mul\<close>: \<open>+\<close> and \<open>*\<close>; \<open>f_div\<close>: \<open>/\<close>, \<open>None\<close> for \<open>ZeroDivisionError\<close>;
  \<^item> \<open>f_mod\<close>: \<open>x % n\<close> for a float \<open>x\<close> and a positive \<open>int\<close> literal \<open>n\<close>;
  \<^item> \<open>f_round\<close>: the builtin \<open>round(x)\<close>, an \<open>int\<close>, \<open>None\<close> when it raises (nan, inf);
  \<^item> \<open>f_lt\<close>: \<open><\<close>; \<open>f_bool\<close>: truth value; \<open>f_repr\<close>: \<open>str(x)\<close>, as an f-string formats it.
\<close>

record 'f float_ops =
  f_lit :: "string \<Rightarrow> 'f"
  f_of_int :: "int \<Rightarrow> 'f"
  f_float :: "'f json \<Rightarrow> py_error + 'f"
  f_add :: "'f \<Rightarrow> 'f \<Rightarrow> 'f"
  f_mul :: "'f \<Rightarrow> 'f \<Rightarrow> 'f"
  f_div :: "'f \<Rightarrow> 'f \<Rightarrow> 'f option"
  f_mod :: "'f \<Rightarrow> int \<Rightarrow> 'f"
  f_round :: "'f \<Rightarrow> int option"
  f_lt :: "'f \<Rightarrow> 'f \<Rightarrow> bool"
  f_bool :: "'f \<Rightarrow> bool"
  f_repr :: "'f \<Rightarrow> string"

text \<open>\<open>d.get(k)\<close>: the value at \<open>k\<close>, \<open>None\<close> when the key is absent.\<close>

definition py_get :: "'f pydict \<Rightarrow> string \<Rightarrow> 'f json" where
  "py_get d k = (case map_of d k of None \<Rightarrow> JNull | Some v \<Rightarrow> v)"

text \<open>\<open>d.get(k, default)\<close>: the default only when the key is absent.\<close>

definition py_get_default :: "'f pydict \<Rightarrow> string \<Rightarrow> 'f json \<Rightarrow> 'f json" where
  "py_get_default d k dflt = (case map_of d k of None \<Rightarrow> dflt | Some v \<Rightarrow> v)"

text \<open>\<open>d[k]\<close>: \<open>KeyError\<close> when the key is absent.\<close>

definition py_index :: "'f pydict \<Rightarrow> string \<Rightarrow> py_error + 'f json" where
  "py_index d k = (case map_of d k of None \<Rightarrow> Inl KeyError | Some v \<Rightarrow> Inr v)"

text \<open>Truth value of a Python object.\<close>

fun py_truthy :: "'f float_ops \<Rightarrow> 'f json \<Rightarrow> bool" where
  "py_truthy ops JNull = False"
| "py_truthy ops (JBool b) = b"
| "py_truthy ops (JInt n) = (n \<noteq> 0)"
| "py_truthy ops (JFloat x) = f_bool ops x"
| "py_truthy ops (JStr s) = (s \<noteq> [])"
| "py_truthy ops (JArr xs) = (xs \<noteq> [])"
| "py_truthy ops (JObj kvs) = (kvs \<noteq> [])"

text \<open>\<open>x or y\<close>.\<close>

definition py_or :: "'f float_ops \<Rightarrow> 'f json \<Rightarrow> 'f json \<Rightarrow> 'f json" where
  "py_or ops x y = (if py_truthy ops x then x else y)"

text \<open>
  \<open>str.lower\<close> on ASCII letters (bytes outside \<open>A\<close>..\<open>Z\<close> are unchanged), and \<open>x.lower()\<close>
  on a value, which raises \<open>AttributeError\<close> unless \<open>x\<close> is a string.
\<close>

definition lower_char :: "char \<Rightarrow> char" where
  "lower_char c =
     (case map_of (zip ''ABCDEFGHIJKLMNOPQRSTUVWXYZ'' ''abcdefghijklmnopqrstuvwxyz'') c of
        None \<Rightarrow> c
      | Some l \<Rightarrow> l)"

definition str_lower :: "string \<Rightarrow> string" where
  "str_lower s = map lower_char s"

fun py_lower :: "'f json \<Rightarrow> py_error + string" where
  "py_lower (JStr s) = Inr (str_lower s)"
| "py_lower _ = Inl AttributeError"

text \<open>
  \<open>len(s)\<close> and \<open>s[:n]\<close> count characters, not bytes. In UTF-8 a character is one byte, or
  a leading byte followed by continuation bytes (\<open>10xxxxxx\<close>): \<open>char_count\<close> is the number
  of bytes that start a character, \<open>take_chars n\<close> the bytes of the first \<open>n\<close> characters,
  and \<open>utf8_chars\<close> the list of the characters.
\<close>

definition is_continuation :: "char \<Rightarrow> bool" where
  "is_continuation c \<longleftrightarrow> digit7 c \<and> \<not> digit6 c"

definition char_count :: "string \<Rightarrow> nat" where
  "char_count s = length (filter (\<lambda>c. \<not> is_continuation c) s)"



text \<open>
  A stable sort in descending order of a key, using only \<open><\<close> on keys, as
  \<open>sorted(xs, key=..., reverse=True)\<close> and \<open>xs.sort(key=..., reverse=True)\<close> are: elements with
  equal keys keep their order.
\<close>

fun insort_desc :: "('k \<Rightarrow> 'k \<Rightarrow> bool) \<Rightarrow> ('a \<Rightarrow> 'k) \<Rightarrow> 'a \<Rightarrow> 'a list \<Rightarrow> 'a list" where
  "insort_desc lt key x [] = [x]"
| "insort_desc lt key x (y # ys) =
     (if lt (key x) (key y) then y # insort_desc lt key x ys else x # y # ys)"

definition sort_desc :: "('k \<Rightarrow> 'k \<Rightarrow> bool) \<Rightarrow> ('a \<Rightarrow> 'k) \<Rightarrow> 'a list \<Rightarrow> 'a list" where
  "sort_desc lt key xs = foldr (insort_desc lt key) xs []"

section \<open>Heat map: \<open>api_sitreps_heatmap\<close>\<close>

text \<open>The rows built by the first loop: \<open>{'lat', 'lon', 'severity', 'source_category', 'weight'}\<close>.\<close>

record 'f heat_row =
  hr_lat :: 'f
  hr_lon :: 'f
  hr_severity :: "'f json"
  hr_source_category :: "'f json"
  hr_weight :: int

text \<open>The \<open>if\<close>/\<open>elif\<close> chain on the lower-cased severity.\<close>

definition severity_weight :: "string \<Rightarrow> int" where
  "severity_weight severity =
     (if severity = ''critical'' then 5
      else if severity = ''high'' then 4
      else if severity = ''medium'' then 3
      else if severity = ''low'' then 2
      else 1)"

text \<open>
  One pass of the first loop. \<open>None\<close>: the row is skipped (\<open>continue\<close>); an error leaves the
  loop and the endpoint answers 500, since only \<open>ValueError\<close> and \<open>TypeError\<close> of \<open>float\<close>
  are caught inside the loop.
\<close>

definition heat_row_of :: "'f float_ops \<Rightarrow> 'f pydict \<Rightarrow> py_error + 'f heat_row option" where
  "heat_row_of ops sitrep =
     (let lat = py_get sitrep ''lat''; lon = py_get sitrep ''lon'' in
      if lat = JNull \<or> lon = JNull then Inr None
      else case f_float ops lat of
        Inl e \<Rightarrow> (if e = ValueError \<or> e = TypeError then Inr None else Inl e)
      | Inr flat \<Rightarrow>
       (case f_float ops lon of
          Inl e \<Rightarrow> (if e = ValueError \<or> e = TypeError then Inr None else Inl e)
        | Inr flon \<Rightarrow>
         (case py_lower (py_or ops (py_get sitrep ''severity'') (JStr ''unknown'')) of
            Inl e \<Rightarrow> Inl e
          | Inr severity \<Rightarrow>
              Inr (Some \<lparr> hr_lat = flat, hr_lon = flon,
                          hr_severity = py_get sitrep ''severity'',
                          hr_source_category = py_get sitrep ''source_category'',
                          hr_weight = severity_weight severity \<rparr>))))"

fun heat_rows :: "'f float_ops \<Rightarrow> 'f pydict list \<Rightarrow> py_error + 'f heat_row list" where
  "heat_rows ops [] = Inr []"
| "heat_rows ops (sitrep # rest) =
     (case heat_row_of ops sitrep of
        Inl e \<Rightarrow> Inl e
      | Inr None \<Rightarrow> heat_rows ops rest
      | Inr (Some row) \<Rightarrow>
         (case heat_rows ops rest of Inl e \<Rightarrow> Inl e | Inr rows \<Rightarrow> Inr (row # rows)))"

text \<open>
  \<open>round(x / grid_size) * grid_size\<close>. Any exception here (division by zero, \<open>round\<close> of nan
  or inf) is caught by the \<open>except Exception\<close> of the loop body, which skips the row.
\<close>

definition grid_coord :: "'f float_ops \<Rightarrow> 'f \<Rightarrow> 'f \<Rightarrow> 'f option" where
  "grid_coord ops grid_size x =
     (case f_div ops x grid_size of
        None \<Rightarrow> None
      | Some q \<Rightarrow> (case f_round ops q of
          None \<Rightarrow> None
        | Some k \<Rightarrow> Some (f_mul ops (f_of_int ops k) grid_size)))"

text \<open>The pair \<open>(grid_lat, grid_lon)\<close> of a row, \<open>None\<close> when the row is skipped.\<close>

definition grid_pair :: "'f float_ops \<Rightarrow> 'f \<Rightarrow> 'f heat_row \<Rightarrow> ('f \<times> 'f) option" where
  "grid_pair ops grid_size row =
     (case grid_coord ops grid_size (hr_lat row) of
        None \<Rightarrow> None
      | Some grid_lat \<Rightarrow> (case grid_coord ops grid_size (hr_lon row) of
          None \<Rightarrow> None
        | Some grid_lon \<Rightarrow> Some (grid_lat, grid_lon)))"

text \<open>\<open>grid_key = f"{grid_lat},{grid_lon}"\<close>.\<close>

definition grid_key_of :: "'f float_ops \<Rightarrow> 'f \<times> 'f \<Rightarrow> string" where
  "grid_key_of ops p = f_repr ops (fst p) @ '','' @ f_repr ops (snd p)"

definition grid_key :: "'f float_ops \<Rightarrow> 'f \<Rightarrow> 'f heat_row \<Rightarrow> string option" where
  "grid_key ops grid_size row = map_option (grid_key_of ops) (grid_pair ops grid_size row)"

text \<open>
  A cell of \<open>grid_data\<close>. The two breakdown dictionaries \<open>sources\<close> and
  \<open>severity_breakdown\<close> of a cell are left out: they are updated after \<open>count\<close> and
  \<open>weight\<close> and take no part in either.
\<close>

record 'f grid_cell =
  gc_lat :: 'f
  gc_lon :: 'f
  gc_count :: int
  gc_weight :: int

text \<open>One pass of the aggregation loop over \<open>grid_data\<close>, a dict from grid key to cell.\<close>

definition grid_step ::
  "'f float_ops \<Rightarrow> 'f \<Rightarrow> (string \<times> 'f grid_cell) list \<Rightarrow> 'f heat_row
     \<Rightarrow> (string \<times> 'f grid_cell) list" where
  "grid_step ops grid_size grid_data row =
     (case grid_pair ops grid_size row of
        None \<Rightarrow> grid_data
      | Some (grid_lat, grid_lon) \<Rightarrow>
         (let key = grid_key_of ops (grid_lat, grid_lon);
              cell = (case map_of grid_data key of
                        None \<Rightarrow> \<lparr> gc_lat = grid_lat, gc_lon = grid_lon, gc_count = 0, gc_weight = 0 \<rparr>
                      | Some c \<Rightarrow> c)
          in AList.update key
               (cell \<lparr> gc_count := gc_count cell + 1, gc_weight := gc_weight cell + hr_weight row \<rparr>)
               grid_data))"

definition grid_aggregate ::
  "'f float_ops \<Rightarrow> 'f \<Rightarrow> 'f heat_row list \<Rightarrow> (string \<times> 'f grid_cell) list" where
  "grid_aggregate ops grid_size rows = foldl (grid_step ops grid_size) [] rows"


text \<open>
  A heat point made from a cell. \<open>intensity = min(weight / 10.0, 1.0)\<close>; an exception
  while building the point skips it.
\<close>

record 'f heat_point =
  hp_lat :: 'f
  hp_lng :: 'f
  hp_intensity :: 'f
  hp_count :: int
  hp_weight :: int

definition heat_point_of :: "'f float_ops \<Rightarrow> string \<times> 'f grid_cell \<Rightarrow> 'f heat_point option" where
  "heat_point_of ops kd =
     (case f_div ops (f_of_int ops (gc_weight (snd kd))) (f_lit ops ''10.0'') of
        None \<Rightarrow> None
      | Some q \<Rightarrow>
          Some \<lparr> hp_lat = gc_lat (snd kd), hp_lng = gc_lon (snd kd),
                 hp_intensity = (if f_lt ops (f_lit ops ''1.0'') q then f_lit ops ''1.0'' else q),
                 hp_count = gc_count (snd kd), hp_weight = gc_weight (snd kd) \<rparr>)"

record 'f heat_response =
  heatPoints :: "'f heat_point list"
  totalIncidents :: nat
  gridSize :: 'f
  criticalAreas :: "'f heat_point list"

text \<open>\<open>grid_size = float(request.args.get('gridSize', 0.1))\<close>.\<close>

definition request_grid_size :: "'f float_ops \<Rightarrow> string option \<Rightarrow> py_error + 'f" where
  "request_grid_size ops gridSize_arg =
     (case gridSize_arg of None \<Rightarrow> Inr (f_lit ops ''0.1'') | Some s \<Rightarrow> f_float ops (JStr s))"

text \<open>
  The endpoint after the query: \<open>sitreps\<close> is what \<open>get_sitreps(filters)\<close> returned and
  \<open>gridSize_arg\<close> the query parameter \<open>gridSize\<close>. An error is the pair of the HTTP status
  and the fixed part of the message.
\<close>

definition api_sitreps_heatmap ::
  "'f float_ops \<Rightarrow> 'f pydict list \<Rightarrow> string option \<Rightarrow> (nat \<times> string) + 'f heat_response" where
  "api_sitreps_heatmap ops sitreps gridSize_arg =
     (case heat_rows ops sitreps of
        Inl e \<Rightarrow> Inl (500, ''Failed to fetch heatmap data'')
      | Inr rows \<Rightarrow>
         (case request_grid_size ops gridSize_arg of
            Inl e \<Rightarrow> Inl (500, ''Failed to process heatmap grid'')
          | Inr grid_size \<Rightarrow>
             (let grid_data = grid_aggregate ops grid_size rows;
                  heat_points = sort_desc (f_lt ops) hp_intensity
                                  (List.map_filter (heat_point_of ops) grid_data)
              in Inr \<lparr> heatPoints = heat_points, totalIncidents = length rows,
                        gridSize = grid_size, criticalAreas = take 10 heat_points \<rparr>)))"

text \<open>The rows of a request that the aggregation loop assigns to the cell of a key.\<close>

definition rows_of_key :: "'f float_ops \<Rightarrow> 'f \<Rightarrow> string \<Rightarrow> 'f heat_row list \<Rightarrow> 'f heat_row list" where
  "rows_of_key ops grid_size key rows = filter (\<lambda>r. grid_key ops grid_size r = Some key) rows"

text \<open>
  The claimed weight of a severity value, in the words of the specification: critical 5,
  high 4, medium 3, low 2, and 1 for any other or missing value, compared without regard
  to case.
\<close>

definition spec_severity_weight :: "'f json \<Rightarrow> int" where
  "spec_severity_weight sev =
     (case sev of
        JStr s \<Rightarrow>
          (if str_lower s = ''critical'' then 5
           else if str_lower s = ''high'' then 4
           else if str_lower s = ''medium'' then 3
           else if str_lower s = ''low'' then 2
           else 1)
      | _ \<Rightarrow> 1)"

text \<open>
  The bucket of a row after the aggregation loop: the entry of \<open>grid_data\<close> under the
  row's grid key, \<open>None\<close> for a row the loop skipped.
\<close>

definition bucket_of ::
  "'f float_ops \<Rightarrow> 'f \<Rightarrow> 'f heat_row list \<Rightarrow> 'f heat_row \<Rightarrow> (string \<times> 'f grid_cell) option" where
  "bucket_of ops grid_size rows row =
     (case grid_key ops grid_size row of
        None \<Rightarrow> None
      | Some key \<Rightarrow> map_option (Pair key) (map_of (grid_aggregate ops grid_size rows) key))"

section \<open>A fixed-point stand-in for floats\<close>

text \<open>
  To run the model on examples, floats are replaced by decimal fixed-point numbers with four
  places: the integer \<open>n\<close> stands for \<open>n / 10000\<close>. Only the float literals of the source
  are known to \<open>f_lit\<close>, and \<open>float\<close> accepts numbers and rejects every string.
\<close>

definition digit_char :: "nat \<Rightarrow> char" where
  "digit_char d = ''0123456789'' ! d"

fun dec_nat :: "nat \<Rightarrow> string" where
  "dec_nat n = (if n < 10 then [digit_char n] else dec_nat (n div 10) @ [digit_char (n mod 10)])"

declare dec_nat.simps [simp del]

definition dec_int :: "int \<Rightarrow> string" where
  "dec_int i = (if i < 0 then CHR ''-'' # dec_nat (nat (- i)) else dec_nat (nat i))"

definition fixed_lit :: "string \<Rightarrow> int" where
  "fixed_lit s =
     (if s = ''0.1'' then 1000
      else if s = ''0.01'' then 100
      else if s = ''1.0'' then 10000
      else if s = ''10.0'' then 100000
      else if s = ''15.2827'' then 152827
      else if s = ''-4.2634'' then - 42634
      else 0)"

fun fixed_float :: "int json \<Rightarrow> py_error + int" where
  "fixed_float (JInt n) = Inr (n * 10000)"
| "fixed_float (JFloat x) = Inr x"
| "fixed_float (JBool b) = Inr (if b then 10000 else 0)"
| "fixed_float (JStr s) = Inl ValueError"
| "fixed_float _ = Inl TypeError"

text \<open>Rounding to the nearest integer, halves to the even neighbour.\<close>

definition fixed_round :: "int \<Rightarrow> int" where
  "fixed_round x =
     (let q = x div 10000; r = x mod 10000 in
      if 2 * r < 10000 then q
      else if 10000 < 2 * r then q + 1
      else if even q then q else q + 1)"

definition fixed_ops :: "int float_ops" where
  "fixed_ops = \<lparr> f_lit = fixed_lit,
                 f_of_int = (\<lambda>n. n * 10000),
                 f_float = fixed_float,
                 f_add = (\<lambda>a b. a + b),
                 f_mul = (\<lambda>a b. (a * b) div 10000),
                 f_div = (\<lambda>a b. if b = 0 then None else Some ((a * 10000) div b)),
                 f_mod = (\<lambda>a n. a mod (n * 10000)),
                 f_round = (\<lambda>x. Some (fixed_round x)),
                 f_lt = (\<lambda>a b. a < b),
                 f_bool = (\<lambda>x. x \<noteq> 0),
                 f_repr = dec_int \<rparr>"

section \<open>Example requests\<close>

text \<open>
  Four incident rows in fixed-point coordinates: two in the cell of (1.2, 30.1), one without
  a latitude, one in the cell of (5.0, 30.1).
\<close>

definition example_sitreps :: "int pydict list" where
  "example_sitreps =
     [[(''id'', JInt 1), (''lat'', JFloat 12000), (''lon'', JFloat 301000),
       (''severity'', JStr ''Critical'')],
      [(''id'', JInt 2), (''lat'', JFloat 12300), (''lon'', JFloat 300900),
       (''severity'', JNull)],
      [(''id'', JInt 3), (''lat'', JNull), (''lon'', JFloat 300900),
       (''severity'', JStr ''low'')],
      [(''id'', JInt 4), (''lat'', JFloat 50000), (''lon'', JFloat 300900),
       (''severity'', JStr ''HIGH'')]]"

definition example_heat_rows :: "int heat_row list" where
  "example_heat_rows =
     [\<lparr> hr_lat = 12000, hr_lon = 301000, hr_severity = JStr ''Critical'',
        hr_source_category = JNull, hr_weight = 5 \<rparr>,
      \<lparr> hr_lat = 12300, hr_lon = 300900, hr_severity = JNull,
        hr_source_category = JNull, hr_weight = 1 \<rparr>,
      \<lparr> hr_lat = 50000, hr_lon = 300900, hr_severity = JStr ''HIGH'',
        hr_source_category = JNull, hr_weight = 4 \<rparr>]"

section \<open>Statistics: \<open>api_sitreps_stats\<close>\<close>

text \<open>
  \<open>counts[k] = counts.get(k, 0) + 1\<close> on a dict kept in insertion order. Keys are compared
  with HOL equality: Python's identification of numerically equal keys of different types
  (\<open>1\<close>, \<open>1.0\<close>, \<open>True\<close>) is not modelled, which can only matter for a \<open>unit\<close> column that
  holds numbers.
\<close>

definition count_inc :: "('k \<times> int) list \<Rightarrow> 'k \<Rightarrow> ('k \<times> int) list" where
  "count_inc counts k =
     AList.update k ((case map_of counts k of None \<Rightarrow> 0 | Some v \<Rightarrow> v) + 1) counts"

text \<open>
  The helper \<open>parse_date\<close> followed by \<open>d.date().isoformat()\<close>. The library call
  \<open>datetime.fromisoformat(clean).date().isoformat()\<close> is the parameter \<open>iso_day\<close>, \<open>None\<close>
  when it raises; \<open>dt_str.replace('Z', '')\<close> raises on a value that is not a string, and the
  helper returns \<open>None\<close> for every exception.
\<close>

definition parse_date :: "(string \<Rightarrow> string option) \<Rightarrow> 'f float_ops \<Rightarrow> 'f json \<Rightarrow> string option" where
  "parse_date iso_day ops dt_str =
     (if \<not> py_truthy ops dt_str then None
      else case dt_str of
        JStr s \<Rightarrow> iso_day (filter (\<lambda>c. c \<noteq> CHR ''Z'') s)
      | _ \<Rightarrow> None)"

text \<open>The loop that fills \<open>counts_by_day\<close>.\<close>

fun count_days ::
  "(string \<Rightarrow> string option) \<Rightarrow> 'f float_ops \<Rightarrow> 'f pydict list \<Rightarrow> (string \<times> int) list
     \<Rightarrow> (string \<times> int) list" where
  "count_days iso_day ops [] counts = counts"
| "count_days iso_day ops (r # rs) counts =
     (case parse_date iso_day ops (py_get r ''created_at'') of
        None \<Rightarrow> count_days iso_day ops rs counts
      | Some day_key \<Rightarrow> count_days iso_day ops rs (count_inc counts day_key))"

text \<open>
  The loops for severity, source category and status, which differ in the column and the
  default only: the key is \<open>(r.get(col) or dflt).lower()\<close>.
\<close>

fun count_lowered ::
  "'f float_ops \<Rightarrow> string \<Rightarrow> string \<Rightarrow> 'f pydict list \<Rightarrow> (string \<times> int) list
     \<Rightarrow> py_error + (string \<times> int) list" where
  "count_lowered ops col dflt [] counts = Inr counts"
| "count_lowered ops col dflt (r # rs) counts =
     (case py_lower (py_or ops (py_get r col) (JStr dflt)) of
        Inl e \<Rightarrow> Inl e
      | Inr k \<Rightarrow> count_lowered ops col dflt rs (count_inc counts k))"

text \<open>The loop for units: the key is \<open>r.get('unit') or 'Unspecified'\<close>; a list or a dict is
  not hashable and raises \<open>TypeError\<close> as a key.\<close>

fun hashable :: "'f json \<Rightarrow> bool" where
  "hashable (JArr xs) = False"
| "hashable (JObj kvs) = False"
| "hashable _ = True"

fun count_units ::
  "'f float_ops \<Rightarrow> 'f pydict list \<Rightarrow> ('f json \<times> int) list \<Rightarrow> py_error + ('f json \<times> int) list" where
  "count_units ops [] counts = Inr counts"
| "count_units ops (r # rs) counts =
     (let unit = py_or ops (py_get r ''unit'') (JStr ''Unspecified'') in
      if hashable unit then count_units ops rs (count_inc counts unit) else Inl TypeError)"

record 'f stats_response =
  st_total :: nat
  st_by_day :: "(string \<times> int) list"
  st_by_severity :: "(string \<times> int) list"
  st_by_source_category :: "(string \<times> int) list"
  st_by_status :: "(string \<times> int) list"
  st_top_units :: "('f json \<times> int) list"

text \<open>\<open>sorted(counts.items(), key=lambda x: x[1], reverse=True)\<close>.\<close>

definition sorted_by_count :: "('k \<times> int) list \<Rightarrow> ('k \<times> int) list" where
  "sorted_by_count items = sort_desc (\<lambda>a b. a < b) snd items"

text \<open>
  The endpoint after the query: \<open>rows\<close> is \<open>get_sitreps(filters) or []\<close>. Every exception
  is answered with status 500. \<open>sorted(counts_by_day.items())\<close> orders the pairs by their
  day, the days being distinct.
\<close>

definition api_sitreps_stats ::
  "(string \<Rightarrow> string option) \<Rightarrow> 'f float_ops \<Rightarrow> 'f pydict list
     \<Rightarrow> (nat \<times> string) + 'f stats_response" where
  "api_sitreps_stats iso_day ops rows =
     (let counts_by_day = count_days iso_day ops rows [] in
      case count_lowered ops ''severity'' ''unknown'' rows [] of
        Inl e \<Rightarrow> Inl (500, ''Failed to compute stats'')
      | Inr counts_sev \<Rightarrow>
       (case count_lowered ops ''source_category'' ''other'' rows [] of
          Inl e \<Rightarrow> Inl (500, ''Failed to compute stats'')
        | Inr counts_src \<Rightarrow>
         (case count_lowered ops ''status'' ''unknown'' rows [] of
            Inl e \<Rightarrow> Inl (500, ''Failed to compute stats'')
          | Inr counts_status \<Rightarrow>
           (case count_units ops rows [] of
              Inl e \<Rightarrow> Inl (500, ''Failed to compute stats'')
            | Inr counts_units \<Rightarrow>
                Inr \<lparr> st_total = length rows,
                      st_by_day = sort_key fst counts_by_day,
                      st_by_severity = sorted_by_count counts_sev,
                      st_by_source_category = sorted_by_count counts_src,
                      st_by_status = sorted_by_count counts_status,
                      st_top_units = take 10 (sorted_by_count counts_units) \<rparr>))))"

text \<open>A list of counted groups is in descending order of count.\<close>

definition count_descending :: "('k \<times> int) list \<Rightarrow> bool" where
  "count_descending items = sorted_wrt (\<lambda>a b. snd b \<le> snd a) items"

text \<open>A list of counted days is in ascending order of day.\<close>

definition day_ascending :: "(string \<times> int) list \<Rightarrow> bool" where
  "day_ascending items = sorted_wrt (\<lambda>a b. fst a < fst b) items"

text \<open>A stand-in for the library's date parsing: the first ten characters of a timestamp.\<close>

definition example_iso_day :: "string \<Rightarrow> string option" where
  "example_iso_day s = (if 10 \<le> length s then Some (take 10 s) else None)"

definition example_stats_rows :: "int pydict list" where
  "example_stats_rows =
     [[(''id'', JInt 1), (''created_at'', JStr ''2024-01-01T08:00:00Z''), (''unit'', JStr ''Unit 1'')],
      [(''id'', JInt 2), (''created_at'', JStr ''2024-01-02T09:00:00Z''), (''unit'', JStr ''Unit 2'')],
      [(''id'', JInt 3), (''created_at'', JStr ''2024-01-02T10:00:00Z''), (''unit'', JStr ''Unit 2'')]]"

definition example_stats_response :: "int stats_response" where
  "example_stats_response =
     \<lparr> st_total = 3,
       st_by_day = [(''2024-01-01'', 1), (''2024-01-02'', 2)],
       st_by_severity = [(''unknown'', 3)],
       st_by_source_category = [(''other'', 3)],
       st_by_status = [(''unknown'', 3)],
       st_top_units = [(JStr ''Unit 2'', 2), (JStr ''Unit 1'', 1)] \<rparr>"

section \<open>The incident store: \<open>get_sitreps\<close>\<close>

text \<open>
  The remote table \<open>sitreps\<close> is a list of rows, each a dict from column name to value. A
  query is the list of filters put on \<open>select("*")\<close> and its order. The store compares
  timestamps, not texts: \<open>ts\<close> reads a timestamp from its text (\<open>None\<close> for a text that is
  none) into a linear order; it stands for the cast the store applies to a \<open>created_at\<close>
  value and to the value of a filter.
\<close>

datatype cond = Gte string string | Lte string string | In_list string "string list"

record query =
  q_conds :: "cond list"
  q_order_desc :: "string option"

definition row_ts :: "(string \<Rightarrow> 't option) \<Rightarrow> 'f pydict \<Rightarrow> string \<Rightarrow> 't option" where
  "row_ts ts row col = (case py_get row col of JStr s \<Rightarrow> ts s | _ \<Rightarrow> None)"

text \<open>
  A row satisfies a filter as in SQL: a comparison with a null column is not true. A filter
  value that is no timestamp makes the store reject the query.
\<close>

fun cond_valid :: "(string \<Rightarrow> 't option) \<Rightarrow> cond \<Rightarrow> bool" where
  "cond_valid ts (Gte col v) = (ts v \<noteq> None)"
| "cond_valid ts (Lte col v) = (ts v \<noteq> None)"
| "cond_valid ts (In_list col vs) = True"

fun cond_holds :: "(string \<Rightarrow> 't::linorder option) \<Rightarrow> cond \<Rightarrow> 'f pydict \<Rightarrow> bool" where
  "cond_holds ts (Gte col v) row =
     (case (row_ts ts row col, ts v) of (Some a, Some b) \<Rightarrow> b \<le> a | _ \<Rightarrow> False)"
| "cond_holds ts (Lte col v) row =
     (case (row_ts ts row col, ts v) of (Some a, Some b) \<Rightarrow> a \<le> b | _ \<Rightarrow> False)"
| "cond_holds ts (In_list col vs) row =
     (case py_get row col of JStr s \<Rightarrow> s \<in> set vs | _ \<Rightarrow> False)"

text \<open>Order of two timestamps of a column in a descending sort: nulls come first.\<close>

fun ts_less :: "'t::linorder option \<Rightarrow> 't option \<Rightarrow> bool" where
  "ts_less (Some a) (Some b) = (a < b)"
| "ts_less (Some a) None = True"
| "ts_less None _ = False"

text \<open>
  \<open>query.execute().data\<close>: the rows that satisfy every filter, in descending order of the
  column named by \<open>order(col, desc=True)\<close> (rows with equal timestamps in table order).
\<close>

definition execute ::
  "(string \<Rightarrow> 't::linorder option) \<Rightarrow> query \<Rightarrow> 'f pydict list \<Rightarrow> py_error + 'f pydict list" where
  "execute ts q table =
     (if \<not> list_all (cond_valid ts) (q_conds q) then Inl StoreError
      else
        let rows = filter (\<lambda>row. list_all (\<lambda>c. cond_holds ts c row) (q_conds q)) table in
        Inr (case q_order_desc q of
               None \<Rightarrow> rows
             | Some col \<Rightarrow> sort_desc ts_less (\<lambda>row. row_ts ts row col) rows))"

text \<open>\<open>s.split(",")\<close>.\<close>

fun split_on :: "char \<Rightarrow> string \<Rightarrow> string list" where
  "split_on sep [] = [[]]"
| "split_on sep (c # cs) =
     (if c = sep then [] # split_on sep cs
      else case split_on sep cs of
        w # ws \<Rightarrow> (c # w) # ws
      | [] \<Rightarrow> [[c]])"

text \<open>
  \<open>filters.get(k)\<close> on the dict of filters, whose values are strings: the value when it is
  present and not empty.
\<close>

definition filter_value :: "(string \<times> string) list \<Rightarrow> string \<Rightarrow> string option" where
  "filter_value filters k =
     (case map_of filters k of None \<Rightarrow> None | Some v \<Rightarrow> if v = [] then None else Some v)"

text \<open>
  The query \<open>get_sitreps\<close> builds. \<open>if filters:\<close> is true of a dict with at least one key;
  \<open>order("created_at", desc=True)\<close> only extends the query and does not raise.
\<close>

definition sitreps_query :: "(string \<times> string) list \<Rightarrow> query" where
  "sitreps_query filters =
     (let conds =
        (if filters \<noteq> [] then
           (case filter_value filters ''from_date'' of
              None \<Rightarrow> [] | Some v \<Rightarrow> [Gte ''created_at'' v])
           @ (case filter_value filters ''to_date'' of
              None \<Rightarrow> [] | Some v \<Rightarrow> [Lte ''created_at'' v])
           @ (case filter_value filters ''source_category'' of
              None \<Rightarrow> [] | Some v \<Rightarrow> [In_list ''source_category'' (split_on CHR '','' v)])
         else [])
      in \<lparr> q_conds = conds, q_order_desc = Some ''created_at'' \<rparr>)"

definition get_sitreps ::
  "(string \<Rightarrow> 't::linorder option) \<Rightarrow> (string \<times> string) list \<Rightarrow> 'f pydict list
     \<Rightarrow> py_error + 'f pydict list" where
  "get_sitreps ts filters table = execute ts (sitreps_query filters) table"

text \<open>
  A stand-in for the store's timestamps: a text of at least ten characters, compared as
  text.
\<close>

definition example_ts :: "string \<Rightarrow> string option" where
  "example_ts s = (if 10 \<le> length s then Some s else None)"

section \<open>GeoJSON view: \<open>api_sitreps_geojson\<close>\<close>

text \<open>
  The query parameters of a request are a dict of strings. \<open>args.get(a) or args.get(b)\<close>
  is the first value when it is not empty, else the second, which may be absent or empty;
  the endpoints test such a value for truth only.
\<close>

definition arg_or :: "(string \<times> string) list \<Rightarrow> string \<Rightarrow> string \<Rightarrow> string option" where
  "arg_or args a b = (case filter_value args a of Some v \<Rightarrow> Some v | None \<Rightarrow> filter_value args b)"

text \<open>\<open>v if 'T' in v else v + suffix\<close>.\<close>

definition full_day :: "string \<Rightarrow> string \<Rightarrow> string" where
  "full_day v suffix = (if CHR ''T'' \<in> set v then v else v @ suffix)"

text \<open>
  The filters the endpoint builds. The parameter \<open>cutoff_iso\<close> stands for the clock: for
  the text of \<open>rangeDays\<close> it gives the ISO timestamp of the current time minus that many
  days, \<open>None\<close> when \<open>int(range_days)\<close> raises.
\<close>

definition geojson_filters ::
  "(string \<Rightarrow> string option) \<Rightarrow> (string \<times> string) list \<Rightarrow> (string \<times> string) list" where
  "geojson_filters cutoff_iso args =
     (let from_date = arg_or args ''from_date'' ''fromDate'';
          to_date = arg_or args ''to_date'' ''toDate'';
          sources = arg_or args ''source_category'' ''sources'';
          range_days = filter_value args ''rangeDays'';
          f1 = (case (range_days, from_date) of
                  (Some d, None) \<Rightarrow>
                    (case cutoff_iso d of
                       None \<Rightarrow> []
                     | Some cutoff \<Rightarrow> [(''from_date'', cutoff @ ''Z'')])
                | _ \<Rightarrow> []);
          f2 = (case from_date of
                  None \<Rightarrow> f1
                | Some v \<Rightarrow> AList.update ''from_date'' (full_day v ''T00:00:00Z'') f1);
          f3 = (case to_date of
                  None \<Rightarrow> f2
                | Some v \<Rightarrow> AList.update ''to_date'' (full_day v ''T23:59:59Z'') f2)
      in case sources of
           None \<Rightarrow> f3
         | Some v \<Rightarrow> AList.update ''source_category'' v f3)"

text \<open>\<open>sitrep.get('lon', sitrep.get('longitude'))\<close> and the same for the latitude.\<close>

definition raw_lon :: "'f pydict \<Rightarrow> 'f json" where
  "raw_lon sitrep = py_get_default sitrep ''lon'' (py_get sitrep ''longitude'')"

definition raw_lat :: "'f pydict \<Rightarrow> 'f json" where
  "raw_lat sitrep = py_get_default sitrep ''lat'' (py_get sitrep ''latitude'')"

text \<open>
  \<open>(sitrep['id'] % 100) * 0.01\<close> for the value of the key \<open>id\<close>: a number gives a float,
  anything else raises \<open>TypeError\<close> (a string at the multiplication at the latest).
\<close>

fun id_offset :: "'f float_ops \<Rightarrow> 'f json \<Rightarrow> py_error + 'f" where
  "id_offset ops (JInt n) = Inr (f_mul ops (f_of_int ops (n mod 100)) (f_lit ops ''0.01''))"
| "id_offset ops (JBool b) =
     Inr (f_mul ops (f_of_int ops ((if b then 1 else 0) mod 100)) (f_lit ops ''0.01''))"
| "id_offset ops (JFloat x) = Inr (f_mul ops (f_mod ops x 100) (f_lit ops ''0.01''))"
| "id_offset ops _ = Inl TypeError"

text \<open>The default coordinates of an integer id.\<close>

definition default_lon :: "'f float_ops \<Rightarrow> int \<Rightarrow> 'f" where
  "default_lon ops n =
     f_add ops (f_lit ops ''15.2827'') (f_mul ops (f_of_int ops (n mod 100)) (f_lit ops ''0.01''))"

definition default_lat :: "'f float_ops \<Rightarrow> int \<Rightarrow> 'f" where
  "default_lat ops n =
     f_add ops (f_lit ops ''-4.2634'') (f_mul ops (f_of_int ops (n mod 100)) (f_lit ops ''0.01''))"

text \<open>The pair \<open>(lon, lat)\<close> the loop puts into a feature.\<close>

definition feature_point :: "'f float_ops \<Rightarrow> 'f pydict \<Rightarrow> py_error + ('f json \<times> 'f json)" where
  "feature_point ops sitrep =
     (let lon = raw_lon sitrep; lat = raw_lat sitrep in
      if lon = JNull \<or> lat = JNull then
        (case py_index sitrep ''id'' of
           Inl e \<Rightarrow> Inl e
         | Inr i \<Rightarrow>
            (case id_offset ops i of
               Inl e \<Rightarrow> Inl e
             | Inr off \<Rightarrow>
                 Inr (JFloat (f_add ops (f_lit ops ''15.2827'') off),
                      JFloat (f_add ops (f_lit ops ''-4.2634'') off))))
      else Inr (lon, lat))"

definition sitrep_feature :: "'f float_ops \<Rightarrow> 'f pydict \<Rightarrow> py_error + 'f json" where
  "sitrep_feature ops sitrep =
     (let description = py_get_default sitrep ''content''
                          (py_get_default sitrep ''description'' (JStr '''')) in
      case feature_point ops sitrep of
        Inl e \<Rightarrow> Inl e
      | Inr (lon, lat) \<Rightarrow>
         (case py_index sitrep ''id'' of
            Inl e \<Rightarrow> Inl e
          | Inr i \<Rightarrow>
             (case py_index sitrep ''source'' of
                Inl e \<Rightarrow> Inl e
              | Inr source \<Rightarrow>
                  Inr (JObj
                    [(''type'', JStr ''Feature''),
                     (''geometry'', JObj [(''type'', JStr ''Point''),
                                          (''coordinates'', JArr [lon, lat])]),
                     (''properties'', JObj
                        [(''id'', i),
                         (''source'', source),
                         (''source_category'', py_get_default sitrep ''source_category'' (JStr '''')),
                         (''incident_type'', py_get_default sitrep ''incident_type'' (JStr '''')),
                         (''title'', py_get_default sitrep ''title'' (JStr '''')),
                         (''description'', description),
                         (''severity'', py_get_default sitrep ''severity'' (JStr ''Unknown'')),
                         (''status'', py_get_default sitrep ''status'' (JStr '''')),
                         (''unit'', py_get_default sitrep ''unit'' (JStr '''')),
                         (''contact'', py_get_default sitrep ''contact'' (JStr '''')),
                         (''created_at'', py_get_default sitrep ''created_at''
                                            (py_get_default sitrep ''timestamp'' (JStr '''')))])]))))"

text \<open>The loop over the rows: the first exception ends it.\<close>

fun sitrep_features :: "'f float_ops \<Rightarrow> 'f pydict list \<Rightarrow> py_error + 'f json list" where
  "sitrep_features ops [] = Inr []"
| "sitrep_features ops (sitrep # rest) =
     (case sitrep_feature ops sitrep of
        Inl e \<Rightarrow> Inl e
      | Inr feature \<Rightarrow>
         (case sitrep_features ops rest of
            Inl e \<Rightarrow> Inl e
          | Inr features \<Rightarrow> Inr (feature # features)))"

definition feature_collection :: "'f json list \<Rightarrow> 'f json" where
  "feature_collection features =
     JObj [(''type'', JStr ''FeatureCollection''), (''features'', JArr features)]"

text \<open>
  The endpoint: the GeoJSON it returns, or the exception that leaves the handler (which the
  framework answers with status 500).
\<close>

definition api_sitreps_geojson ::
  "'f float_ops \<Rightarrow> (string \<Rightarrow> 't::linorder option) \<Rightarrow> (string \<Rightarrow> string option)
     \<Rightarrow> (string \<times> string) list \<Rightarrow> 'f pydict list \<Rightarrow> py_error + 'f json" where
  "api_sitreps_geojson ops ts cutoff_iso args table =
     (case get_sitreps ts (geojson_filters cutoff_iso args) table of
        Inl e \<Rightarrow> Inl e
      | Inr sitreps \<Rightarrow>
         (case sitrep_features ops sitreps of
            Inl e \<Rightarrow> Inl e
          | Inr features \<Rightarrow> Inr (feature_collection features)))"

text \<open>\<open>feature['geometry']['coordinates']\<close> of a feature, for stating properties.\<close>

fun json_get :: "'f json \<Rightarrow> string \<Rightarrow> 'f json" where
  "json_get (JObj kvs) k = py_get kvs k"
| "json_get _ k = JNull"

definition feature_coordinates :: "'f json \<Rightarrow> 'f json" where
  "feature_coordinates feature = json_get (json_get feature ''geometry'') ''coordinates''"

text \<open>A table with one located row and two rows without coordinates.\<close>

definition example_table :: "int pydict list" where
  "example_table =
     [[(''id'', JInt 7), (''source'', JStr ''HQ''), (''lat'', JFloat (- 43000)),
       (''lon'', JFloat 153000), (''created_at'', JStr ''2024-01-03T10:00:00Z'')],
      [(''id'', JInt 205), (''source'', JStr ''NGO''), (''lat'', JNull), (''lon'', JNull),
       (''created_at'', JStr ''2024-01-02T10:00:00Z'')],
      [(''id'', JInt 12), (''source'', JStr ''Local''), (''latitude'', JFloat 10000),
       (''created_at'', JStr ''2023-12-31T10:00:00Z'')]]"

definition example_cutoff :: "string \<Rightarrow> string option" where
  "example_cutoff d = (if d = ''7'' then Some ''2024-01-01T00:00:00'' else None)"

section \<open>Creating incidents: \<open>api_sitreps\<close> (POST) and \<open>insert_sitrep\<close>\<close>

text \<open>
  \<open>str.strip\<close> removes the ASCII white space of Python (tab, line feed, vertical tab, form
  feed, carriage return, the four separators \<open>0x1C\<close>..\<open>0x1F\<close>, space) from both ends.
\<close>

definition is_space :: "char \<Rightarrow> bool" where
  "is_space c \<longleftrightarrow>
     c \<in> set [CHR 0x09, CHR 0x0A, CHR 0x0B, CHR 0x0C, CHR 0x0D,
              CHR 0x1C, CHR 0x1D, CHR 0x1E, CHR 0x1F, CHR 0x20]"

definition str_strip :: "string \<Rightarrow> string" where
  "str_strip s = rev (dropWhile is_space (rev (dropWhile is_space s)))"

text \<open>
  The builtin \<open>str(x)\<close>: a string is itself; the text of any other value is left to the
  parameter \<open>repr\<close>.
\<close>

definition py_str :: "('f json \<Rightarrow> string) \<Rightarrow> 'f json \<Rightarrow> string" where
  "py_str repr v = (case v of JStr s \<Rightarrow> s | _ \<Rightarrow> repr v)"

text \<open>\<open>s or dflt\<close> for a string \<open>s\<close>.\<close>

definition str_or :: "string \<Rightarrow> string \<Rightarrow> string" where
  "str_or s dflt = (if s = [] then dflt else s)"

text \<open>
  The remote store of incidents. It assigns the id (a serial number) and \<open>created_at\<close> of
  a new row. An insert is answered in one of three ways: the store takes the row and
  returns it; it returns no row and stores none; or the client raises.
\<close>

datatype availability = Available | Refusing | Unreachable

record 'f store =
  st_sitreps :: "'f pydict list"
  st_next_id :: int
  st_now :: string
  st_state :: availability

text \<open>\<open>supabase.table("sitreps").insert(sitrep_data).execute().data\<close>.\<close>

definition store_insert ::
  "'f pydict \<Rightarrow> 'f store \<Rightarrow> (py_error + 'f pydict list) \<times> 'f store" where
  "store_insert sitrep_data store =
     (case st_state store of
        Unreachable \<Rightarrow> (Inl StoreError, store)
      | Refusing \<Rightarrow> (Inr [], store)
      | Available \<Rightarrow>
          (let row = (''id'', JInt (st_next_id store)) # sitrep_data
                       @ [(''created_at'', JStr (st_now store))]
           in (Inr [row],
               store \<lparr> st_sitreps := st_sitreps store @ [row],
                       st_next_id := st_next_id store + 1 \<rparr>)))"

definition insert_sitrep ::
  "'f pydict \<Rightarrow> 'f store \<Rightarrow> (py_error + 'f pydict) \<times> 'f store" where
  "insert_sitrep sitrep_data store =
     (case store_insert sitrep_data store of
        (Inl e, store') \<Rightarrow> (Inl e, store')
      | (Inr [], store') \<Rightarrow>
          (Inr [(''status'', JStr ''error''), (''message'', JStr ''Failed to insert sitrep'')],
           store')
      | (Inr (row # _), store') \<Rightarrow>
          (case py_index row ''id'' of
             Inl e \<Rightarrow> (Inl e, store')
           | Inr i \<Rightarrow> (Inr [(''status'', JStr ''success''), (''id'', i)], store')))"

text \<open>
  The first of the required keys that is not in \<open>data\<close> or whose value is \<open>None\<close> or the
  empty string: \<open>k not in data or data[k] in (None, "")\<close>.
\<close>

fun first_missing :: "'f pydict \<Rightarrow> string list \<Rightarrow> string option" where
  "first_missing data [] = None"
| "first_missing data (k # ks) =
     (case map_of data k of
        None \<Rightarrow> Some k
      | Some v \<Rightarrow> if v = JNull \<or> v = JStr [] then Some k else first_missing data ks)"

text \<open>The row the endpoint submits.\<close>

definition sitrep_data_of ::
  "('f json \<Rightarrow> string) \<Rightarrow> 'f pydict \<Rightarrow> 'f \<Rightarrow> 'f \<Rightarrow> 'f pydict" where
  "sitrep_data_of repr data lat lon =
     [(''source'', JStr (str_strip (py_str repr (py_get_default data ''source'' (JStr ''''))))),
      (''source_category'',
         JStr (str_lower (str_strip (py_str repr (py_get_default data ''source_category'' (JStr '''')))))),
      (''incident_type'',
         JStr (str_lower (str_strip (py_str repr (py_get_default data ''incident_type'' (JStr '''')))))),
      (''title'',
         JStr (str_or (str_strip (py_str repr (py_get_default data ''title'' (JStr '''')))) ''Untitled'')),
      (''description'',
         JStr (str_or (str_strip (py_str repr (py_get_default data ''description'' (JStr ''''))))
                 ''No description provided'')),
      (''severity'', JStr (str_strip (py_str repr (py_get_default data ''severity'' (JStr ''Unknown''))))),
      (''status'', JStr (str_lower (str_strip (py_str repr (py_get_default data ''status'' (JStr '''')))))),
      (''unit'', JStr (str_strip (py_str repr (py_get_default data ''unit'' (JStr ''''))))),
      (''contact'', JStr (str_strip (py_str repr (py_get_default data ''contact'' (JStr ''''))))),
      (''lat'', JFloat lat),
      (''lon'', JFloat lon)]"

text \<open>
  The POST branch of the endpoint for a request whose body \<open>request.json or {}\<close> is the JSON
  object \<open>data\<close>. The answer is the HTTP status with the body, or the exception that leaves
  the handler; with it comes the store after the request.
\<close>

definition api_sitreps_post ::
  "'f float_ops \<Rightarrow> ('f json \<Rightarrow> string) \<Rightarrow> 'f pydict \<Rightarrow> 'f store
     \<Rightarrow> (py_error + nat \<times> 'f pydict) \<times> 'f store" where
  "api_sitreps_post ops repr data store =
     (case first_missing data [''source'', ''lat'', ''lon''] of
        Some k \<Rightarrow> (Inr (400, [(''error'', JStr (''Missing required field: '' @ k))]), store)
      | None \<Rightarrow>
         (case f_float ops (py_get data ''lat'') of
            Inl e \<Rightarrow> (Inr (400, [(''error'', JStr ''lat/lon must be numbers'')]), store)
          | Inr lat \<Rightarrow>
             (case f_float ops (py_get data ''lon'') of
                Inl e \<Rightarrow> (Inr (400, [(''error'', JStr ''lat/lon must be numbers'')]), store)
              | Inr lon \<Rightarrow>
                 (case insert_sitrep (sitrep_data_of repr data lat lon) store of
                    (Inl e, store') \<Rightarrow> (Inl e, store')
                  | (Inr result, store') \<Rightarrow> (Inr (200, result), store')))))"

text \<open>A field of the body is present and not empty.\<close>

definition field_given :: "'f pydict \<Rightarrow> string \<Rightarrow> bool" where
  "field_given data k =
     (case map_of data k of None \<Rightarrow> False | Some v \<Rightarrow> v \<noteq> JNull \<and> v \<noteq> JStr [])"

text \<open>An example body and store; the text of a value that is no string is not needed.\<close>

definition example_repr :: "int json \<Rightarrow> string" where
  "example_repr v = ''?''"

definition example_post :: "int pydict" where
  "example_post =
     [(''source'', JStr '' HQ ''), (''lat'', JFloat (- 43000)), (''lon'', JInt 15),
      (''severity'', JStr ''High'')]"

definition example_store :: "int store" where
  "example_store =
     \<lparr> st_sitreps = example_table, st_next_id = 206, st_now = ''2024-01-04T00:00:00Z'',
       st_state = Available \<rparr>"

section \<open>Deleting incidents by title: \<open>api_sitreps_delete\<close>\<close>

text \<open>
  The endpoint opens the local SQLite database at \<open>DB_PATH\<close> and deletes from its table
  \<open>sitreps\<close>; it makes no call to the remote store. The world of a request is the remote
  store together with the rows of the local table, \<open>None\<close> when the database cannot be
  opened or has no such table.
\<close>

record 'f world =
  w_store :: "'f store"
  w_sqlite :: "'f pydict list option"

text \<open>\<open>[str(t).strip() for t in titles if str(t).strip()]\<close>.\<close>

definition normalize_titles :: "('f json \<Rightarrow> string) \<Rightarrow> 'f json list \<Rightarrow> string list" where
  "normalize_titles repr titles =
     map (\<lambda>t. str_strip (py_str repr t)) (filter (\<lambda>t. str_strip (py_str repr t) \<noteq> []) titles)"

text \<open>\<open>title IN (...)\<close>: the title is a text equal to one of the values.\<close>

definition title_in :: "string list \<Rightarrow> 'f pydict \<Rightarrow> bool" where
  "title_in titles row = (case py_get row ''title'' of JStr s \<Rightarrow> s \<in> set titles | _ \<Rightarrow> False)"

definition api_sitreps_delete ::
  "'f float_ops \<Rightarrow> ('f json \<Rightarrow> string) \<Rightarrow> 'f pydict \<Rightarrow> 'f world
     \<Rightarrow> (py_error + nat \<times> 'f pydict) \<times> 'f world" where
  "api_sitreps_delete ops repr data world =
     (case py_or ops (py_get data ''titles'') (JArr []) of
        JArr raw_titles \<Rightarrow>
          (if raw_titles = [] then
             (Inr (400, [(''error'', JStr ''Provide a non-empty 'titles' array'')]), world)
           else
             let titles = normalize_titles repr raw_titles in
             if titles = [] then
               (Inr (400, [(''error'', JStr ''No valid titles provided'')]), world)
             else
               (case w_sqlite world of
                  None \<Rightarrow> (Inl StoreError, world)
                | Some rows \<Rightarrow>
                    (Inr (200, [(''status'', JStr ''deleted''),
                                (''count'', JInt (int (length (filter (title_in titles) rows))))]),
                     world \<lparr> w_sqlite := Some (filter (\<lambda>row. \<not> title_in titles row) rows) \<rparr>)))
      | _ \<Rightarrow> (Inr (400, [(''error'', JStr ''Provide a non-empty 'titles' array'')]), world))"

text \<open>
  A world whose remote store and local table both hold a row with the title
  \<open>Patrol report\<close>.
\<close>

definition example_titled_rows :: "int pydict list" where
  "example_titled_rows =
     [[(''id'', JInt 1), (''source'', JStr ''HQ''), (''title'', JStr ''Patrol report'')],
      [(''id'', JInt 2), (''source'', JStr ''NGO''), (''title'', JStr ''Bridge damage'')]]"

definition example_world :: "int world" where
  "example_world =
     \<lparr> w_store = \<lparr> st_sitreps = example_titled_rows, st_next_id = 3,
                   st_now = ''2024-01-04T00:00:00Z'', st_state = Available \<rparr>,
       w_sqlite = Some example_titled_rows \<rparr>"

section \<open>Layers: \<open>upload_layer_to_bucket\<close>, \<open>update_layer\<close> and \<open>convert_to_geojson\<close>\<close>

text \<open>
  The remote bucket of layers: its files by path, each with the GeoJSON document it holds,
  and what the storage service does at a request. \<open>bk_configured\<close>: the storage client
  can be created; \<open>bk_accessible\<close>: \<open>ensure_layers_bucket()\<close> finds the bucket;
  \<open>bk_writable\<close>: the service accepts an upload or an update.
\<close>

record 'f bucket =
  bk_configured :: bool
  bk_accessible :: bool
  bk_writable :: bool
  bk_files :: "(string \<times> 'f json) list"

text \<open>\<open>file_path = f"{layer_name}.geojson"\<close>.\<close>

definition layer_file :: "string \<Rightarrow> string" where
  "layer_file layer_name = layer_name @ ''.geojson''"

text \<open>
  The dict a storage function returns: \<open>{"success": True, "path": ...}\<close> or
  \<open>{"error": ...}\<close> (the text of the exception in the message is left out).
\<close>

definition storage_success :: "string \<Rightarrow> 'f pydict" where
  "storage_success path = [(''success'', JBool True), (''path'', JStr path)]"

definition storage_error :: "string \<Rightarrow> 'f pydict" where
  "storage_error msg = [(''error'', JStr msg)]"

text \<open>The service rejects an update of a file that does not exist.\<close>

definition update_layer_in_bucket ::
  "string \<Rightarrow> 'f json \<Rightarrow> 'f bucket \<Rightarrow> 'f pydict \<times> 'f bucket" where
  "update_layer_in_bucket layer_name geojson_data bucket =
     (if \<not> bk_configured bucket then (storage_error ''Update failed'', bucket)
      else if \<not> bk_writable bucket \<or> map_of (bk_files bucket) (layer_file layer_name) = None
        then (storage_error ''Update failed'', bucket)
      else (storage_success (layer_file layer_name),
            bucket \<lparr> bk_files :=
              AList.update (layer_file layer_name) geojson_data (bk_files bucket) \<rparr>))"

text \<open>
  An upload to a path that exists raises a \<open>StorageException\<close> that says so, and the
  function updates the file instead. The function catches every exception.
\<close>

definition upload_layer_to_bucket ::
  "string \<Rightarrow> 'f json \<Rightarrow> 'f bucket \<Rightarrow> 'f pydict \<times> 'f bucket" where
  "upload_layer_to_bucket layer_name geojson_data bucket =
     (if \<not> bk_configured bucket then (storage_error ''Upload failed'', bucket)
      else if \<not> bk_accessible bucket
        then (storage_error ''Failed to ensure bucket exists'', bucket)
      else if map_of (bk_files bucket) (layer_file layer_name) \<noteq> None
        then update_layer_in_bucket layer_name geojson_data bucket
      else if \<not> bk_writable bucket then (storage_error ''Storage error'', bucket)
      else (storage_success (layer_file layer_name),
            bucket \<lparr> bk_files :=
              AList.update (layer_file layer_name) geojson_data (bk_files bucket) \<rparr>))"

text \<open>
  The local directory of layers: a file holds a JSON document, or content that
  \<open>json.load\<close> rejects. The directory itself is taken to be writable.
\<close>

datatype 'f local_file = Json "'f json" | Unreadable

record 'f layer_world =
  lw_bucket :: "'f bucket"
  lw_local :: "(string \<times> 'f local_file) list"

text \<open>\<open>len(x)\<close>.\<close>

fun py_len :: "'f json \<Rightarrow> py_error + nat" where
  "py_len (JStr s) = Inr (char_count s)"
| "py_len (JArr xs) = Inr (length xs)"
| "py_len (JObj kvs) = Inr (length kvs)"
| "py_len _ = Inl TypeError"

text \<open>\<open>sub in s\<close> for strings.\<close>

fun str_contains :: "string \<Rightarrow> string \<Rightarrow> bool" where
  "str_contains sub [] = (sub = [])"
| "str_contains sub (c # cs) = (take (length sub) (c # cs) = sub \<or> str_contains sub cs)"

text \<open>
  \<open>"features" not in old_content\<close> followed by \<open>old_content["features"] = features\<close> on the
  document of an existing file: the new document, \<open>None\<close> where the endpoint answers
  \<open>Invalid existing geojson\<close>, or the exception of a document that is no object.
\<close>

fun replace_features :: "'f json \<Rightarrow> 'f json \<Rightarrow> py_error + 'f json option" where
  "replace_features (JObj kvs) features =
     (if map_of kvs ''features'' = None then Inr None
      else Inr (Some (JObj (AList.update ''features'' features kvs))))"
| "replace_features (JArr xs) features =
     (if JStr ''features'' \<notin> set xs then Inr None else Inl TypeError)"
| "replace_features (JStr s) features =
     (if \<not> str_contains ''features'' s then Inr None else Inl TypeError)"
| "replace_features _ features = Inl TypeError"

text \<open>The fallback of \<open>update_layer\<close> to the local file.\<close>

definition update_local ::
  "string \<Rightarrow> 'f json \<Rightarrow> 'f layer_world \<Rightarrow> (nat \<times> 'f pydict) \<times> 'f layer_world" where
  "update_local layer features world =
     (let written = (\<lambda>doc.
            let world' = world \<lparr> lw_local :=
                           AList.update (layer_file layer) (Json doc) (lw_local world) \<rparr>
            in case py_len features of
                 Inl e \<Rightarrow> ((500, [(''error'', JStr ''TypeError'')]), world')
               | Inr n \<Rightarrow>
                   ((200, [(''status'', JStr ''success''), (''updatedCount'', JInt (int n)),
                           (''storage'', JStr ''local'')]), world'))
      in case map_of (lw_local world) (layer_file layer) of
           None \<Rightarrow>
             written (JObj [(''type'', JStr ''FeatureCollection''), (''features'', features)])
         | Some Unreadable \<Rightarrow> ((500, [(''error'', JStr ''JSONDecodeError'')]), world)
         | Some (Json old_content) \<Rightarrow>
            (case replace_features old_content features of
               Inl e \<Rightarrow> ((500, [(''error'', JStr ''TypeError'')]), world)
             | Inr None \<Rightarrow> ((400, [(''error'', JStr ''Invalid existing geojson'')]), world)
             | Inr (Some doc) \<Rightarrow> written doc))"

text \<open>
  The endpoint for a request whose body \<open>request.json\<close> is the JSON object \<open>data\<close> (the
  empty dict also stands for a missing body). An exception of \<open>len\<close> after a successful
  upload is caught and leads to the local fallback as well.
\<close>

definition update_layer ::
  "'f float_ops \<Rightarrow> string \<Rightarrow> 'f pydict \<Rightarrow> 'f layer_world
     \<Rightarrow> (nat \<times> 'f pydict) \<times> 'f layer_world" where
  "update_layer ops layer data world =
     (if data = [] \<or> map_of data ''features'' = None then
        ((400, [(''error'', JStr ''Invalid data format'')]), world)
      else
        let features = py_get data ''features'';
            geojson_data = JObj [(''type'', JStr ''FeatureCollection''), (''features'', features)];
            (result, bucket') = upload_layer_to_bucket layer geojson_data (lw_bucket world);
            world' = world \<lparr> lw_bucket := bucket' \<rparr>
        in if py_truthy ops (py_get result ''success'') then
             (case py_len features of
                Inr n \<Rightarrow>
                  ((200, [(''status'', JStr ''success''), (''updatedCount'', JInt (int n)),
                          (''storage'', JStr ''supabase'')]), world')
              | Inl e \<Rightarrow> update_local layer features world')
           else update_local layer features world')"

text \<open>
  An upload to the conversion endpoint, after \<open>secure_filename\<close> and \<open>splitext\<close>: the layer
  name, the lower-cased extension, whether the \<open>.shx\<close> and \<open>.dbf\<close> files of a shapefile
  are there, and what the geospatial library makes of the file: the GeoJSON object of
  \<open>json.loads(gdf.to_json())\<close>, or the exception of the parse.
\<close>

record 'f upload =
  up_layer_name :: string
  up_ext :: string
  up_has_aux :: bool
  up_parsed :: "py_error + 'f pydict"

text \<open>
  The conversion endpoint; \<open>None\<close> is a request without a file or with an empty one (both
  are answered with status 400, the message of the first is kept). \<open>success\<close> is the dict that
  \<open>upload_layer_to_bucket\<close> returned and \<open>if success:\<close> tests that dict for truth; the
  \<open>else\<close> branch writes the local file with \<open>gdf.to_file\<close>.
\<close>

definition convert_to_geojson ::
  "'f float_ops \<Rightarrow> 'f upload option \<Rightarrow> 'f layer_world
     \<Rightarrow> (nat \<times> 'f pydict) \<times> 'f layer_world" where
  "convert_to_geojson ops request world =
     (case request of
        None \<Rightarrow> ((400, [(''error'', JStr ''No file uploaded'')]), world)
      | Some file \<Rightarrow>
         (if up_ext file \<noteq> ''.gpkg'' \<and> up_ext file \<noteq> ''.shp'' \<and> up_ext file \<noteq> ''.csv'' then
            ((400, [(''error'', JStr (''Unsupported file format: '' @ up_ext file))]), world)
          else if up_ext file = ''.shp'' \<and> \<not> up_has_aux file then
            ((400, [(''error'', JStr ''Shapefile requires .shp, .shx, and .dbf files.'')]), world)
          else case up_parsed file of
            Inl e \<Rightarrow> ((500, [(''error'', JStr ''parse error'')]), world)
          | Inr geojson_data \<Rightarrow>
             (let layer_name = up_layer_name file;
                  (success, bucket') =
                     upload_layer_to_bucket layer_name (JObj geojson_data) (lw_bucket world);
                  world' = world \<lparr> lw_bucket := bucket' \<rparr>;
                  (storage_location, world'') =
                     (if py_truthy ops (JObj success) then (''supabase'', world')
                      else (''local'',
                            world' \<lparr> lw_local :=
                              AList.update (layer_file layer_name) (Json (JObj geojson_data))
                                (lw_local world') \<rparr>))
              in case py_len (py_get_default geojson_data ''features'' (JArr [])) of
                   Inl e \<Rightarrow> ((500, [(''error'', JStr ''TypeError'')]), world'')
                 | Inr n \<Rightarrow>
                     ((200, [(''status'', JStr ''success''),
                             (''geojson_file'', JStr (layer_file layer_name)),
                             (''layer_name'', JStr layer_name),
                             (''storage'', JStr storage_location),
                             (''features_count'', JInt (int n))]), world''))))"

text \<open>The document of a layer at the storage location that an answer names.\<close>

definition stored_layer :: "'f json \<Rightarrow> 'f layer_world \<Rightarrow> string \<Rightarrow> 'f json option" where
  "stored_layer storage world layer =
     (if storage = JStr ''supabase'' then map_of (bk_files (lw_bucket world)) (layer_file layer)
      else case map_of (lw_local world) (layer_file layer) of
             Some (Json doc) \<Rightarrow> Some doc
           | _ \<Rightarrow> None)"

text \<open>A world whose bucket cannot be found and whose local directory is empty.\<close>

definition example_offline :: "int layer_world" where
  "example_offline =
     \<lparr> lw_bucket = \<lparr> bk_configured = True, bk_accessible = False, bk_writable = False,
                     bk_files = [] \<rparr>,
       lw_local = [] \<rparr>"

definition example_online :: "int layer_world" where
  "example_online =
     \<lparr> lw_bucket = \<lparr> bk_configured = True, bk_accessible = True, bk_writable = True,
                     bk_files = [(''roads.geojson'',
                       JObj [(''type'', JStr ''FeatureCollection''),
                             (''features'', JArr [JStr ''old'', JStr ''older''])])] \<rparr>,
       lw_local = [] \<rparr>"

definition example_upload :: "int upload" where
  "example_upload =
     \<lparr> up_layer_name = ''roads'', up_ext = ''.gpkg'', up_has_aux = False,
       up_parsed = Inr [(''type'', JStr ''FeatureCollection''),
                        (''features'', JArr [JStr ''road 1''])] \<rparr>"

definition example_update :: "int pydict" where
  "example_update = [(''features'', JArr [JStr ''road 1'', JStr ''road 2'', JStr ''road 3''])]"

section \<open>Insights: \<open>validate_and_format_insights\<close> and the parsing of LLM answers\<close>












text \<open>
  \<open>isinstance(parsed_json, dict) and any(key in parsed_json for key in ['patterns',
  'anomalies', 'trends'])\<close>.
\<close>

fun is_insight_object :: "'f json \<Rightarrow> bool" where
  "is_insight_object (JObj kvs) =
     (map_of kvs ''patterns'' \<noteq> None \<or> map_of kvs ''anomalies'' \<noteq> None
      \<or> map_of kvs ''trends'' \<noteq> None)"
| "is_insight_object _ = False"










definition extracted_insights :: "(string \<Rightarrow> 'f json option) \<Rightarrow> string list \<Rightarrow> 'f json list" where
  "extracted_insights loads candidates =
     filter is_insight_object (List.map_filter loads candidates)"

















section \<open>Properties\<close>

subsection \<open>Sorting and decimal numerals\<close>

lemma set_insort_desc: "set (insort_desc lt key x xs) = insert x (set xs)"
  by (induction xs) auto

lemma set_sort_desc: "set (sort_desc lt key xs) = set xs"
  by (induction xs) (auto simp: sort_desc_def set_insort_desc)








subsection \<open>The aggregation loop of the heat map\<close>

lemma map_of_grid_step:
  "map_of (grid_step ops gs gd row) k =
     (case grid_pair ops gs row of
        None \<Rightarrow> map_of gd k
      | Some p \<Rightarrow>
         (if k = grid_key_of ops p then
            Some (case map_of gd k of
                    None \<Rightarrow> \<lparr> gc_lat = fst p, gc_lon = snd p, gc_count = 1, gc_weight = hr_weight row \<rparr>
                  | Some c \<Rightarrow> c \<lparr> gc_count := gc_count c + 1, gc_weight := gc_weight c + hr_weight row \<rparr>)
          else map_of gd k))"
  by (auto simp: grid_step_def Let_def update_conv' split: option.splits prod.splits)

lemma distinct_grid_step:
  "distinct (map fst gd) \<Longrightarrow> distinct (map fst (grid_step ops gs gd row))"
  by (auto simp: grid_step_def Let_def distinct_update split: option.splits prod.splits)

lemma distinct_grid_foldl:
  "distinct (map fst gd) \<Longrightarrow> distinct (map fst (foldl (grid_step ops gs) gd rows))"
  by (induction rows arbitrary: gd) (auto simp: distinct_grid_step)

text \<open>What the loop has stored at a key, from what was there before it ran.\<close>

lemma grid_foldl_weight:
  "map_option gc_weight (map_of (foldl (grid_step ops gs) gd rows) k) =
     (if map_of gd k = None \<and> rows_of_key ops gs k rows = [] then None
      else Some ((case map_of gd k of None \<Rightarrow> 0 | Some c \<Rightarrow> gc_weight c)
                 + sum_list (map hr_weight (rows_of_key ops gs k rows))))"
proof (induction rows arbitrary: gd)
  case Nil
  then show ?case by (auto simp: rows_of_key_def split: option.splits)
next
  case (Cons row rows)
  show ?case
    by (simp add: Cons.IH map_of_grid_step)
       (auto simp: rows_of_key_def grid_key_def split: option.splits)
qed


text \<open>Every cell is stored under the key of its own coordinates.\<close>

lemma grid_foldl_key:
  "(\<forall>k c. map_of gd k = Some c \<longrightarrow> k = grid_key_of ops (gc_lat c, gc_lon c)) \<Longrightarrow>
   map_of (foldl (grid_step ops gs) gd rows) k = Some c \<Longrightarrow>
   k = grid_key_of ops (gc_lat c, gc_lon c)"
proof (induction rows arbitrary: gd)
  case Nil
  then show ?case by simp
next
  case (Cons row rows)
  have "\<forall>k c. map_of (grid_step ops gs gd row) k = Some c \<longrightarrow> k = grid_key_of ops (gc_lat c, gc_lon c)"
    using Cons.prems(1) by (auto simp: map_of_grid_step split: option.splits if_splits)
  from Cons.IH[OF this] Cons.prems(2) show ?case by simp
qed

lemma str_lower_unknown: "str_lower ''unknown'' = ''unknown''"
  by (simp add: str_lower_def lower_char_def)

lemma heat_row_of_weight:
  assumes "heat_row_of ops sitrep = Inr (Some row)"
  shows "hr_severity row = py_get sitrep ''severity''
         \<and> hr_weight row = spec_severity_weight (py_get sitrep ''severity'')"
proof -
  let ?sev = "py_get sitrep ''severity''"
  from assms obtain severity where
    low: "py_lower (py_or ops ?sev (JStr ''unknown'')) = Inr severity"
    and row: "hr_severity row = ?sev" "hr_weight row = severity_weight severity"
    by (auto simp: heat_row_of_def Let_def split: if_splits sum.splits)
  have "severity_weight severity = spec_severity_weight ?sev"
  proof (cases "py_truthy ops ?sev")
    case True
    with low obtain s where "?sev = JStr s" "severity = str_lower s"
      by (cases ?sev) (auto simp: py_or_def)
    then show ?thesis by (simp add: severity_weight_def spec_severity_weight_def)
  next
    case False
    with low have s: "severity = ''unknown''" by (simp add: py_or_def str_lower_unknown)
    from False have "spec_severity_weight ?sev = 1"
      by (cases ?sev) (auto simp: spec_severity_weight_def str_lower_def)
    with s show ?thesis by (simp add: severity_weight_def)
  qed
  with row show ?thesis by simp
qed

lemma heat_rows_sound:
  "heat_rows ops sitreps = Inr rows \<Longrightarrow>
   \<forall>row\<in>set rows. \<exists>sitrep\<in>set sitreps. heat_row_of ops sitrep = Inr (Some row)"
  by (induction sitreps arbitrary: rows) (auto split: sum.splits option.splits)

lemma heat_point_sound:
  assumes "p \<in> set (sort_desc lt key (List.map_filter (heat_point_of ops) (grid_aggregate ops gs rows)))"
  shows "\<exists>c. map_of (grid_aggregate ops gs rows) (grid_key_of ops (hp_lat p, hp_lng p)) = Some c
            \<and> hp_lat p = gc_lat c \<and> hp_lng p = gc_lon c
            \<and> hp_count p = gc_count c \<and> hp_weight p = gc_weight c"
proof -
  let ?gd = "grid_aggregate ops gs rows"
  from assms obtain kd where kd: "kd \<in> set ?gd" and hp: "heat_point_of ops kd = Some p"
    by (auto simp: set_sort_desc List.map_filter_def)
  obtain k c where kc: "kd = (k, c)" by (cases kd)
  have "distinct (map fst ?gd)"
    unfolding grid_aggregate_def by (rule distinct_grid_foldl) simp
  with kd kc have m: "map_of ?gd k = Some c" by simp
  then have "k = grid_key_of ops (gc_lat c, gc_lon c)"
    unfolding grid_aggregate_def by (rule grid_foldl_key[rotated]) simp
  moreover from hp kc have "hp_lat p = gc_lat c" "hp_lng p = gc_lon c"
    "hp_count p = gc_count c" "hp_weight p = gc_weight c"
    by (auto simp: heat_point_of_def split: option.splits)
  ultimately show ?thesis using m by auto
qed

lemma grid_aggregate_weight:
  "map_of (grid_aggregate ops gs rows) k = Some c \<Longrightarrow>
   gc_weight c = sum_list (map hr_weight (rows_of_key ops gs k rows))"
  using grid_foldl_weight[of ops gs "[]" rows k]
  by (auto simp: grid_aggregate_def split: if_splits)


lemmas heatmap_eval =
  api_sitreps_heatmap_def heat_row_of_def py_get_def py_or_def
  fixed_ops_def str_lower_def lower_char_def severity_weight_def request_grid_size_def
  fixed_lit_def Let_def grid_aggregate_def grid_step_def grid_pair_def grid_coord_def
  fixed_round_def grid_key_of_def grid_key_def dec_int_def dec_nat.simps digit_char_def
  List.map_filter_def heat_point_of_def sort_desc_def rows_of_key_def bucket_of_def

lemma example_heat_rows: "heat_rows fixed_ops example_sitreps = Inr example_heat_rows"
  by (simp add: example_sitreps_def example_heat_rows_def heatmap_eval)

lemma example_heatmap:
  "api_sitreps_heatmap fixed_ops example_sitreps None =
     Inr \<lparr> heatPoints =
             [\<lparr> hp_lat = 12000, hp_lng = 301000, hp_intensity = 6000, hp_count = 2, hp_weight = 6 \<rparr>,
              \<lparr> hp_lat = 50000, hp_lng = 301000, hp_intensity = 4000, hp_count = 1, hp_weight = 4 \<rparr>],
           totalIncidents = 3, gridSize = 1000,
           criticalAreas =
             [\<lparr> hp_lat = 12000, hp_lng = 301000, hp_intensity = 6000, hp_count = 2, hp_weight = 6 \<rparr>,
              \<lparr> hp_lat = 50000, hp_lng = 301000, hp_intensity = 4000, hp_count = 1, hp_weight = 4 \<rparr>] \<rparr>"
  by (simp add: example_sitreps_def heatmap_eval)

subsection \<open>C8: severity weights and cell weights\<close>

text \<open>
  C8. Whenever the heat-map endpoint answers, every row it processed has the weight of the
  fixed severity lookup (critical 5, high 4, medium 3, low 2, 1 for any other or missing
  severity, compared case-insensitively), and the weight of every heat point is the sum of
  the weights of the rows assigned to its grid cell.
\<close>

theorem heatmap_weights:
  assumes "api_sitreps_heatmap ops sitreps gridSize_arg = Inr resp"
  shows "\<exists>rows grid_size.
           heat_rows ops sitreps = Inr rows \<and> request_grid_size ops gridSize_arg = Inr grid_size
           \<and> (\<forall>row\<in>set rows. hr_weight row = spec_severity_weight (hr_severity row))
           \<and> (\<forall>p\<in>set (heatPoints resp).
                 hp_weight p = sum_list (map hr_weight
                   (rows_of_key ops grid_size (grid_key_of ops (hp_lat p, hp_lng p)) rows)))"
proof -
  from assms obtain rows grid_size where
    rows: "heat_rows ops sitreps = Inr rows"
    and gs: "request_grid_size ops gridSize_arg = Inr grid_size"
    and hp: "heatPoints resp = sort_desc (f_lt ops) hp_intensity
               (List.map_filter (heat_point_of ops) (grid_aggregate ops grid_size rows))"
    by (auto simp: api_sitreps_heatmap_def Let_def split: sum.splits)
  have "\<forall>row\<in>set rows. hr_weight row = spec_severity_weight (hr_severity row)"
    using heat_rows_sound[OF rows] heat_row_of_weight by metis
  moreover have "\<forall>p\<in>set (heatPoints resp).
      hp_weight p = sum_list (map hr_weight
        (rows_of_key ops grid_size (grid_key_of ops (hp_lat p, hp_lng p)) rows))"
  proof
    fix p assume "p \<in> set (heatPoints resp)"
    with hp heat_point_sound[of p "f_lt ops" hp_intensity ops grid_size rows]
    obtain c where "map_of (grid_aggregate ops grid_size rows)
        (grid_key_of ops (hp_lat p, hp_lng p)) = Some c" "hp_weight p = gc_weight c"
      by auto
    then show "hp_weight p = sum_list (map hr_weight
        (rows_of_key ops grid_size (grid_key_of ops (hp_lat p, hp_lng p)) rows))"
      using grid_aggregate_weight by metis
  qed
  ultimately show ?thesis using rows gs by blast
qed

theorem heatmap_weights_witness:
  "\<exists>resp. api_sitreps_heatmap fixed_ops example_sitreps None = Inr resp
     \<and> map hp_weight (heatPoints resp) = [6, 4]
     \<and> (\<forall>row\<in>set example_heat_rows. hr_weight row = spec_severity_weight (hr_severity row))
     \<and> (\<forall>p\<in>set (heatPoints resp).
           hp_weight p = sum_list (map hr_weight
             (rows_of_key fixed_ops 1000 (grid_key_of fixed_ops (hp_lat p, hp_lng p))
                example_heat_rows)))"
proof -
  have gs: "request_grid_size fixed_ops None = Inr 1000"
    by (simp add: request_grid_size_def fixed_ops_def fixed_lit_def)
  from heatmap_weights[OF example_heatmap] example_heat_rows gs
  show ?thesis by (simp add: example_heatmap)
qed

subsection \<open>C3: rows share a bucket exactly when their grid pairs agree\<close>







subsection \<open>C4: order of the groupings of the statistics\<close>

lemma insort_desc_sorted:
  fixes key :: "'a \<Rightarrow> int"
  shows "sorted_wrt (\<lambda>a b. key b \<le> key a) xs \<Longrightarrow>
         sorted_wrt (\<lambda>a b. key b \<le> key a) (insort_desc (\<lambda>a b. a < b) key x xs)"
  by (induction xs) (auto simp: set_insort_desc)

lemma sort_desc_sorted:
  fixes key :: "'a \<Rightarrow> int"
  shows "sorted_wrt (\<lambda>a b. key b \<le> key a) (sort_desc (\<lambda>a b. a < b) key xs)"
  by (induction xs) (auto simp: sort_desc_def insort_desc_sorted[unfolded sort_desc_def])

lemma count_descending_sorted: "count_descending (sorted_by_count items)"
  unfolding count_descending_def sorted_by_count_def by (rule sort_desc_sorted)

lemma count_descending_take: "count_descending xs \<Longrightarrow> count_descending (take n xs)"
  unfolding count_descending_def by (rule sorted_wrt_take)

lemma take_top:
  assumes "count_descending xs" "a \<in> set (take n xs)" "b \<in> set (drop n xs)"
  shows "snd b \<le> snd a"
proof -
  from assms(1) have "sorted_wrt (\<lambda>a b. snd b \<le> snd a) (take n xs @ drop n xs)"
    by (simp add: count_descending_def)
  with assms(2,3) show ?thesis unfolding sorted_wrt_append by blast
qed

lemma distinct_count_inc: "distinct (map fst counts) \<Longrightarrow> distinct (map fst (count_inc counts k))"
  by (simp add: count_inc_def distinct_update)

lemma distinct_count_days:
  "distinct (map fst counts) \<Longrightarrow> distinct (map fst (count_days iso_day ops rows counts))"
  by (induction rows arbitrary: counts) (auto simp: distinct_count_inc split: option.splits)

lemma day_ascending_sorted:
  assumes "distinct (map fst items)"
  shows "day_ascending (sort_key fst items)"
proof -
  have "sorted (map fst (sort_key fst items))" by simp
  moreover have "distinct (map fst (sort_key fst items))"
    using assms by (simp add: distinct_map)
  ultimately have "sorted_wrt (<) (map fst (sort_key fst items))"
    by (simp add: strict_sorted_iff)
  then show ?thesis by (simp add: day_ascending_def sorted_wrt_map)
qed

lemmas stats_eval =
  api_sitreps_stats_def example_stats_rows_def example_stats_response_def parse_date_def
  example_iso_day_def py_get_def py_or_def count_inc_def sorted_by_count_def sort_desc_def
  str_lower_def lower_char_def fixed_ops_def Let_def

lemma example_stats:
  "api_sitreps_stats example_iso_day fixed_ops example_stats_rows = Inr example_stats_response"
  by (simp add: stats_eval)

text \<open>
  The claim as stated fails for the grouping by day: on three rows, one of 1 January and two
  of 2 January, the endpoint lists the day with the smaller count first.
\<close>

theorem stats_by_day_counterexample:
  "api_sitreps_stats example_iso_day fixed_ops example_stats_rows = Inr example_stats_response
   \<and> st_by_day example_stats_response = [(''2024-01-01'', 1), (''2024-01-02'', 2)]
   \<and> \<not> count_descending (st_by_day example_stats_response)"
  by (simp add: example_stats) (simp add: example_stats_response_def count_descending_def)

text \<open>
  C4, amended. Whenever the statistics endpoint answers, the groupings by severity, source
  category and status and the list of top units are in descending order of count, the
  grouping by day is in ascending order of day, and the top units are at most ten and are
  units with the highest counts: no other unit has a larger count than one of them.
\<close>

theorem stats_groupings_ordered:
  assumes "api_sitreps_stats iso_day ops rows = Inr resp"
  shows "count_descending (st_by_severity resp)
       \<and> count_descending (st_by_source_category resp)
       \<and> count_descending (st_by_status resp)
       \<and> count_descending (st_top_units resp)
       \<and> day_ascending (st_by_day resp)
       \<and> length (st_top_units resp) \<le> 10
       \<and> (\<exists>counts_units. count_units ops rows [] = Inr counts_units
             \<and> set (st_top_units resp) \<subseteq> set counts_units
             \<and> (\<forall>a\<in>set (st_top_units resp).
                  \<forall>b\<in>set counts_units - set (st_top_units resp). snd b \<le> snd a))"
proof -
  from assms obtain counts_sev counts_src counts_status counts_units where
    units: "count_units ops rows [] = Inr counts_units"
    and resp: "resp = \<lparr> st_total = length rows,
                 st_by_day = sort_key fst (count_days iso_day ops rows []),
                 st_by_severity = sorted_by_count counts_sev,
                 st_by_source_category = sorted_by_count counts_src,
                 st_by_status = sorted_by_count counts_status,
                 st_top_units = take 10 (sorted_by_count counts_units) \<rparr>"
    by (auto simp: api_sitreps_stats_def Let_def split: sum.splits)
  let ?sorted = "sorted_by_count counts_units"
  have s: "set ?sorted = set counts_units"
    by (simp add: sorted_by_count_def set_sort_desc)
  have sub: "set (take 10 ?sorted) \<subseteq> set counts_units"
    using s set_take_subset by fastforce
  have top: "\<forall>a\<in>set (take 10 ?sorted). \<forall>b\<in>set counts_units - set (take 10 ?sorted). snd b \<le> snd a"
  proof (intro ballI)
    fix a b assume a: "a \<in> set (take 10 ?sorted)"
      and b: "b \<in> set counts_units - set (take 10 ?sorted)"
    from b s have "b \<in> set (take 10 ?sorted @ drop 10 ?sorted)" by simp
    with b have "b \<in> set (drop 10 ?sorted)" by (simp only: set_append) blast
    with a show "snd b \<le> snd a"
      using take_top[OF count_descending_sorted] by blast
  qed
  have day: "day_ascending (sort_key fst (count_days iso_day ops rows []))"
    by (rule day_ascending_sorted, rule distinct_count_days) simp
  from units sub top day show ?thesis
    by (simp add: resp count_descending_sorted count_descending_take)
qed

theorem stats_groupings_ordered_witness:
  "api_sitreps_stats example_iso_day fixed_ops example_stats_rows = Inr example_stats_response
   \<and> count_descending (st_by_severity example_stats_response)
   \<and> count_descending (st_top_units example_stats_response)
   \<and> day_ascending (st_by_day example_stats_response)
   \<and> length (st_top_units example_stats_response) \<le> 10"
  using stats_groupings_ordered[OF example_stats] example_stats by simp

subsection \<open>C6: the rows of a date-range query\<close>

lemma execute_rows:
  assumes "execute ts q table = Inr rows" and "row \<in> set rows"
  shows "row \<in> set table \<and> list_all (\<lambda>c. cond_holds ts c row) (q_conds q)"
proof -
  let ?kept = "filter (\<lambda>row. list_all (\<lambda>c. cond_holds ts c row) (q_conds q)) table"
  from assms(1) have "rows = (case q_order_desc q of
      None \<Rightarrow> ?kept
    | Some col \<Rightarrow> sort_desc ts_less (\<lambda>row. row_ts ts row col) ?kept)"
    by (simp add: execute_def Let_def split: if_splits)
  then have "set rows = set ?kept"
    by (cases "q_order_desc q") (simp_all add: set_sort_desc)
  with assms(2) show ?thesis by simp
qed

lemma cond_holds_Gte:
  "cond_holds ts (Gte col v) row \<Longrightarrow> \<exists>a b. row_ts ts row col = Some a \<and> ts v = Some b \<and> b \<le> a"
  by (auto split: option.splits)

lemma cond_holds_Lte:
  "cond_holds ts (Lte col v) row \<Longrightarrow> \<exists>a b. row_ts ts row col = Some a \<and> ts v = Some b \<and> a \<le> b"
  by (auto split: option.splits)

text \<open>
  C6. Every row the query function returns is a row of the table whose \<open>created_at\<close> is
  not before \<open>from_date\<close> when that filter is given, and not after \<open>to_date\<close> when that
  filter is given.
\<close>

theorem get_sitreps_within_range:
  assumes "get_sitreps ts filters table = Inr rows" and "row \<in> set rows"
  shows "row \<in> set table
       \<and> (\<forall>from_date. filter_value filters ''from_date'' = Some from_date \<longrightarrow>
            (\<exists>a b. row_ts ts row ''created_at'' = Some a \<and> ts from_date = Some b \<and> b \<le> a))
       \<and> (\<forall>to_date. filter_value filters ''to_date'' = Some to_date \<longrightarrow>
            (\<exists>a b. row_ts ts row ''created_at'' = Some a \<and> ts to_date = Some b \<and> a \<le> b))"
proof -
  from execute_rows[OF assms[unfolded get_sitreps_def]]
  have tab: "row \<in> set table"
    and all: "list_all (\<lambda>c. cond_holds ts c row) (q_conds (sitreps_query filters))"
    by simp_all
  have conds: "filters \<noteq> [] \<Longrightarrow> q_conds (sitreps_query filters) =
      (case filter_value filters ''from_date'' of
         None \<Rightarrow> [] | Some v \<Rightarrow> [Gte ''created_at'' v])
      @ (case filter_value filters ''to_date'' of
         None \<Rightarrow> [] | Some v \<Rightarrow> [Lte ''created_at'' v])
      @ (case filter_value filters ''source_category'' of
         None \<Rightarrow> [] | Some v \<Rightarrow> [In_list ''source_category'' (split_on CHR '','' v)])"
    by (simp add: sitreps_query_def)
  have ne: "\<And>k v. filter_value filters k = Some v \<Longrightarrow> filters \<noteq> []"
    by (auto simp: filter_value_def)
  have "\<exists>a b. row_ts ts row ''created_at'' = Some a \<and> ts v = Some b \<and> b \<le> a"
    if fv: "filter_value filters ''from_date'' = Some v" for v
  proof -
    from all conds[OF ne[OF fv]] fv have "cond_holds ts (Gte ''created_at'' v) row"
      by (simp del: cond_holds.simps)
    then show ?thesis by (rule cond_holds_Gte)
  qed
  moreover have "\<exists>a b. row_ts ts row ''created_at'' = Some a \<and> ts v = Some b \<and> a \<le> b"
    if fv: "filter_value filters ''to_date'' = Some v" for v
  proof -
    from all conds[OF ne[OF fv]] fv have "cond_holds ts (Lte ''created_at'' v) row"
      by (simp del: cond_holds.simps)
    then show ?thesis by (rule cond_holds_Lte)
  qed
  ultimately show ?thesis using tab by blast
qed

lemmas store_eval =
  get_sitreps_def sitreps_query_def execute_def filter_value_def row_ts_def py_get_def
  example_ts_def sort_desc_def Let_def

lemma example_range_query:
  "get_sitreps example_ts
     [(''from_date'', ''2024-01-02T00:00:00Z''), (''to_date'', ''2024-01-02T23:59:59Z'')]
     example_table
   = Inr [[(''id'', JInt 205), (''source'', JStr ''NGO''), (''lat'', JNull), (''lon'', JNull),
           (''created_at'', JStr ''2024-01-02T10:00:00Z'')]]"
  by (simp add: store_eval example_table_def)

theorem get_sitreps_within_range_witness:
  "get_sitreps example_ts
     [(''from_date'', ''2024-01-02T00:00:00Z''), (''to_date'', ''2024-01-02T23:59:59Z'')]
     example_table
   = Inr [example_table ! 1]
   \<and> row_ts example_ts (example_table ! 1) ''created_at'' = Some ''2024-01-02T10:00:00Z''
   \<and> ''2024-01-02T00:00:00Z'' \<le> ''2024-01-02T10:00:00Z''
   \<and> ''2024-01-02T10:00:00Z'' \<le> ''2024-01-02T23:59:59Z''"
proof -
  have q: "get_sitreps example_ts
     [(''from_date'', ''2024-01-02T00:00:00Z''), (''to_date'', ''2024-01-02T23:59:59Z'')]
     example_table = Inr [example_table ! 1]"
    by (simp add: example_range_query) (simp add: example_table_def)
  have r: "row_ts example_ts (example_table ! 1) ''created_at'' = Some ''2024-01-02T10:00:00Z''"
    by (simp add: example_table_def row_ts_def py_get_def example_ts_def)
  from get_sitreps_within_range[OF q, of "example_table ! 1"] r q show ?thesis
    by (simp add: filter_value_def example_ts_def)
qed

subsection \<open>C10: coordinates of the GeoJSON view\<close>

lemma feature_point_cases:
  assumes "feature_point ops sitrep = Inr (lon, lat)"
  shows "lon \<noteq> JNull \<and> lat \<noteq> JNull
       \<and> (raw_lon sitrep \<noteq> JNull \<and> raw_lat sitrep \<noteq> JNull \<longrightarrow>
            lon = raw_lon sitrep \<and> lat = raw_lat sitrep)
       \<and> (raw_lon sitrep = JNull \<or> raw_lat sitrep = JNull \<longrightarrow>
            (\<forall>n. py_get sitrep ''id'' = JInt n \<longrightarrow>
               lon = JFloat (default_lon ops n) \<and> lat = JFloat (default_lat ops n)))"
proof (cases "raw_lon sitrep = JNull \<or> raw_lat sitrep = JNull")
  case False
  with assms show ?thesis by (simp add: feature_point_def Let_def)
next
  case True
  with assms obtain i off where i: "py_index sitrep ''id'' = Inr i"
    and off: "id_offset ops i = Inr off"
    and lon: "lon = JFloat (f_add ops (f_lit ops ''15.2827'') off)"
    and lat: "lat = JFloat (f_add ops (f_lit ops ''-4.2634'') off)"
    by (auto simp: feature_point_def Let_def split: sum.splits)
  from i have g: "py_get sitrep ''id'' = i"
    by (auto simp: py_index_def py_get_def split: option.splits)
  have "\<forall>n. py_get sitrep ''id'' = JInt n \<longrightarrow>
      lon = JFloat (default_lon ops n) \<and> lat = JFloat (default_lat ops n)"
    using g off lon lat by (auto simp: default_lon_def default_lat_def)
  with True lon lat show ?thesis by auto
qed

lemma sitrep_feature_coordinates:
  assumes "sitrep_feature ops sitrep = Inr feature"
  shows "\<exists>lon lat. feature_point ops sitrep = Inr (lon, lat)
           \<and> feature_coordinates feature = JArr [lon, lat]"
  using assms
  by (auto simp: sitrep_feature_def Let_def feature_coordinates_def py_get_def
           split: sum.splits prod.splits)

lemma sitrep_features_all2:
  "sitrep_features ops sitreps = Inr features \<Longrightarrow>
   list_all2 (\<lambda>sitrep feature. sitrep_feature ops sitrep = Inr feature) sitreps features"
  by (induction sitreps arbitrary: features) (auto split: sum.splits)

lemma sitrep_feature_total:
  assumes "map_of sitrep ''id'' = Some (JInt n)" and "map_of sitrep ''source'' \<noteq> None"
  shows "\<exists>feature. sitrep_feature ops sitrep = Inr feature"
proof -
  from assms(1) have i: "py_index sitrep ''id'' = Inr (JInt n)" by (simp add: py_index_def)
  from assms(2) obtain s where s: "py_index sitrep ''source'' = Inr s"
    by (auto simp: py_index_def)
  from i have "\<exists>p. feature_point ops sitrep = Inr p"
    by (simp add: feature_point_def Let_def)
  then obtain lon lat where "feature_point ops sitrep = Inr (lon, lat)" by auto
  with i s show ?thesis by (simp add: sitrep_feature_def Let_def)
qed

lemma sitrep_features_total:
  "\<forall>sitrep\<in>set sitreps. (\<exists>n. map_of sitrep ''id'' = Some (JInt n)) \<and> map_of sitrep ''source'' \<noteq> None
   \<Longrightarrow> \<exists>features. sitrep_features ops sitreps = Inr features"
proof (induction sitreps)
  case Nil
  then show ?case by simp
next
  case (Cons sitrep rest)
  from Cons.prems obtain n where "map_of sitrep ''id'' = Some (JInt n)"
    and "map_of sitrep ''source'' \<noteq> None" by auto
  from sitrep_feature_total[OF this] obtain feature
    where "sitrep_feature ops sitrep = Inr feature" by blast
  moreover from Cons obtain features where "sitrep_features ops rest = Inr features" by auto
  ultimately show ?case by simp
qed

text \<open>
  C10. Let the query of a request return the rows \<open>sitreps\<close>. Whatever collection the
  GeoJSON endpoint returns has one feature per row, in order, whose coordinates are a pair
  \<open>[lon, lat]\<close> without a null: the row's own values when it has both, and otherwise, for a
  row with the integer id \<open>n\<close>, the defaults \<open>15.2827 + (n mod 100) * 0.01\<close> and
  \<open>-4.2634 + (n mod 100) * 0.01\<close>. The endpoint does return a collection when every row
  has an integer id and a \<open>source\<close> key.
\<close>

theorem geojson_coordinates_never_null:
  assumes "get_sitreps ts (geojson_filters cutoff_iso args) table = Inr sitreps"
  shows "(\<forall>fc. api_sitreps_geojson ops ts cutoff_iso args table = Inr fc \<longrightarrow>
            (\<exists>features. fc = feature_collection features \<and> length features = length sitreps
               \<and> (\<forall>i<length sitreps. \<exists>lon lat.
                      feature_coordinates (features ! i) = JArr [lon, lat]
                      \<and> lon \<noteq> JNull \<and> lat \<noteq> JNull
                      \<and> (raw_lon (sitreps ! i) \<noteq> JNull \<and> raw_lat (sitreps ! i) \<noteq> JNull \<longrightarrow>
                           lon = raw_lon (sitreps ! i) \<and> lat = raw_lat (sitreps ! i))
                      \<and> (raw_lon (sitreps ! i) = JNull \<or> raw_lat (sitreps ! i) = JNull \<longrightarrow>
                           (\<forall>n. py_get (sitreps ! i) ''id'' = JInt n \<longrightarrow>
                              lon = JFloat (default_lon ops n)
                              \<and> lat = JFloat (default_lat ops n))))))
       \<and> ((\<forall>sitrep\<in>set sitreps.
              (\<exists>n. map_of sitrep ''id'' = Some (JInt n)) \<and> map_of sitrep ''source'' \<noteq> None)
            \<longrightarrow> (\<exists>fc. api_sitreps_geojson ops ts cutoff_iso args table = Inr fc))"
proof (intro conjI allI impI)
  fix fc
  assume "api_sitreps_geojson ops ts cutoff_iso args table = Inr fc"
  with assms obtain features where fs: "sitrep_features ops sitreps = Inr features"
    and fc: "fc = feature_collection features"
    by (auto simp: api_sitreps_geojson_def split: sum.splits)
  from sitrep_features_all2[OF fs]
  have len: "length features = length sitreps"
    and nth: "\<forall>i<length sitreps. sitrep_feature ops (sitreps ! i) = Inr (features ! i)"
    by (simp_all add: list_all2_conv_all_nth)
  have "\<forall>i<length sitreps. \<exists>lon lat.
      feature_coordinates (features ! i) = JArr [lon, lat]
      \<and> lon \<noteq> JNull \<and> lat \<noteq> JNull
      \<and> (raw_lon (sitreps ! i) \<noteq> JNull \<and> raw_lat (sitreps ! i) \<noteq> JNull \<longrightarrow>
           lon = raw_lon (sitreps ! i) \<and> lat = raw_lat (sitreps ! i))
      \<and> (raw_lon (sitreps ! i) = JNull \<or> raw_lat (sitreps ! i) = JNull \<longrightarrow>
           (\<forall>n. py_get (sitreps ! i) ''id'' = JInt n \<longrightarrow>
              lon = JFloat (default_lon ops n) \<and> lat = JFloat (default_lat ops n)))"
  proof (intro allI impI)
    fix i assume "i < length sitreps"
    with nth have "sitrep_feature ops (sitreps ! i) = Inr (features ! i)" by simp
    from sitrep_feature_coordinates[OF this] obtain lon lat where
      p: "feature_point ops (sitreps ! i) = Inr (lon, lat)"
      and c: "feature_coordinates (features ! i) = JArr [lon, lat]" by blast
    from feature_point_cases[OF p] c show "\<exists>lon lat.
      feature_coordinates (features ! i) = JArr [lon, lat]
      \<and> lon \<noteq> JNull \<and> lat \<noteq> JNull
      \<and> (raw_lon (sitreps ! i) \<noteq> JNull \<and> raw_lat (sitreps ! i) \<noteq> JNull \<longrightarrow>
           lon = raw_lon (sitreps ! i) \<and> lat = raw_lat (sitreps ! i))
      \<and> (raw_lon (sitreps ! i) = JNull \<or> raw_lat (sitreps ! i) = JNull \<longrightarrow>
           (\<forall>n. py_get (sitreps ! i) ''id'' = JInt n \<longrightarrow>
              lon = JFloat (default_lon ops n) \<and> lat = JFloat (default_lat ops n)))"
      by blast
  qed
  with fc len show "\<exists>features. fc = feature_collection features \<and> length features = length sitreps
      \<and> (\<forall>i<length sitreps. \<exists>lon lat.
             feature_coordinates (features ! i) = JArr [lon, lat]
             \<and> lon \<noteq> JNull \<and> lat \<noteq> JNull
             \<and> (raw_lon (sitreps ! i) \<noteq> JNull \<and> raw_lat (sitreps ! i) \<noteq> JNull \<longrightarrow>
                  lon = raw_lon (sitreps ! i) \<and> lat = raw_lat (sitreps ! i))
             \<and> (raw_lon (sitreps ! i) = JNull \<or> raw_lat (sitreps ! i) = JNull \<longrightarrow>
                  (\<forall>n. py_get (sitreps ! i) ''id'' = JInt n \<longrightarrow>
                     lon = JFloat (default_lon ops n) \<and> lat = JFloat (default_lat ops n))))"
    by blast
next
  assume "\<forall>sitrep\<in>set sitreps.
      (\<exists>n. map_of sitrep ''id'' = Some (JInt n)) \<and> map_of sitrep ''source'' \<noteq> None"
  from sitrep_features_total[OF this] obtain features
    where "sitrep_features ops sitreps = Inr features" by blast
  with assms show "\<exists>fc. api_sitreps_geojson ops ts cutoff_iso args table = Inr fc"
    by (simp add: api_sitreps_geojson_def)
qed

lemmas geojson_eval =
  api_sitreps_geojson_def sitrep_feature_def feature_point_def raw_lon_def raw_lat_def
  py_get_default_def py_index_def feature_collection_def feature_coordinates_def
  geojson_filters_def arg_or_def full_day_def fixed_ops_def fixed_lit_def

lemma example_geojson_query:
  "get_sitreps example_ts (geojson_filters example_cutoff []) example_table = Inr example_table"
  by (simp add: store_eval geojson_filters_def arg_or_def example_table_def)

theorem geojson_coordinates_never_null_witness:
  "get_sitreps example_ts (geojson_filters example_cutoff []) example_table = Inr example_table
   \<and> map (\<lambda>sitrep. map_of sitrep ''id'') example_table
       = [Some (JInt 7), Some (JInt 205), Some (JInt 12)]
   \<and> map (\<lambda>sitrep. map_of sitrep ''source'') example_table
       = [Some (JStr ''HQ''), Some (JStr ''NGO''), Some (JStr ''Local'')]
   \<and> (\<exists>features.
         api_sitreps_geojson fixed_ops example_ts example_cutoff [] example_table
           = Inr (feature_collection features)
         \<and> map feature_coordinates features
             = [JArr [JFloat 153000, JFloat (- 43000)],
                JArr [JFloat 153327, JFloat (- 42134)],
                JArr [JFloat 154027, JFloat (- 41434)]])
   \<and> default_lon fixed_ops 205 = 153327 \<and> default_lat fixed_ops 205 = - 42134"
proof -
  have wf: "\<forall>sitrep\<in>set example_table.
      (\<exists>n. map_of sitrep ''id'' = Some (JInt n)) \<and> map_of sitrep ''source'' \<noteq> None"
    by (simp add: example_table_def)
  have d: "default_lon fixed_ops 205 = 153327 \<and> default_lat fixed_ops 205 = - 42134"
    by (simp add: default_lon_def default_lat_def fixed_ops_def fixed_lit_def)
  have main: "\<exists>features.
         api_sitreps_geojson fixed_ops example_ts example_cutoff [] example_table
           = Inr (feature_collection features)
         \<and> map feature_coordinates features
             = [JArr [JFloat 153000, JFloat (- 43000)],
                JArr [JFloat 153327, JFloat (- 42134)],
                JArr [JFloat 154027, JFloat (- 41434)]]"
    unfolding api_sitreps_geojson_def example_geojson_query
    by (simp add: example_table_def geojson_eval py_get_def)
  from geojson_coordinates_never_null[OF example_geojson_query, of fixed_ops] wf
  have "\<exists>fc. api_sitreps_geojson fixed_ops example_ts example_cutoff [] example_table = Inr fc"
    by blast
  moreover have "map (\<lambda>sitrep. map_of sitrep ''id'') example_table
       = [Some (JInt 7), Some (JInt 205), Some (JInt 12)]"
    and "map (\<lambda>sitrep. map_of sitrep ''source'') example_table
       = [Some (JStr ''HQ''), Some (JStr ''NGO''), Some (JStr ''Local'')]"
    by (simp_all add: example_table_def)
  ultimately show ?thesis using main example_geojson_query d by blast
qed

subsection \<open>C5: creating an incident\<close>

lemma first_missing_none:
  "first_missing data [''source'', ''lat'', ''lon''] = None \<longleftrightarrow>
     field_given data ''source'' \<and> field_given data ''lat'' \<and> field_given data ''lon''"
  by (auto simp: field_given_def split: option.splits)

lemma first_missing_some:
  "first_missing data ks = Some k \<Longrightarrow> k \<in> set ks"
  by (induction ks) (auto split: option.splits if_splits)

lemmas post_eval =
  api_sitreps_post_def insert_sitrep_def store_insert_def sitrep_data_of_def py_index_def
  py_get_def py_get_default_def py_str_def str_strip_def str_lower_def str_or_def is_space_def
  lower_char_def field_given_def fixed_ops_def example_post_def example_store_def

text \<open>
  The claim as stated fails: a request with all three fields, whose coordinates are numbers,
  is answered without an id when the store returns no row from the insert.
\<close>

theorem create_incident_counterexample:
  "field_given example_post ''source'' \<and> field_given example_post ''lat''
   \<and> field_given example_post ''lon''
   \<and> f_float fixed_ops (py_get example_post ''lat'') = Inr (- 43000)
   \<and> f_float fixed_ops (py_get example_post ''lon'') = Inr 150000
   \<and> api_sitreps_post fixed_ops example_repr example_post (example_store \<lparr> st_state := Refusing \<rparr>)
       = (Inr (200, [(''status'', JStr ''error''), (''message'', JStr ''Failed to insert sitrep'')]),
          example_store \<lparr> st_state := Refusing \<rparr>)"
  by (simp add: post_eval)

text \<open>
  C5, amended. A POST whose body lacks one of \<open>source\<close>, \<open>lat\<close>, \<open>lon\<close> or has it null or
  empty, or whose \<open>lat\<close> or \<open>lon\<close> is not accepted by \<open>float\<close>, is answered with status 400
  and an error, and the store is unchanged. Any other POST submits one row to the store:
  when the store takes it, the answer carries the id the store gave the new row, which is
  the last row of the table afterwards; when the store returns no row, the answer is the
  error \<open>Failed to insert sitrep\<close> without an id and the store is unchanged; when the client
  raises, the exception leaves the handler.
\<close>

theorem create_incident:
  "(\<not> (field_given data ''source'' \<and> field_given data ''lat'' \<and> field_given data ''lon'')
      \<or> (\<exists>e. f_float ops (py_get data ''lat'') = Inl e)
      \<or> (\<exists>e. f_float ops (py_get data ''lon'') = Inl e)
    \<longrightarrow> (\<exists>msg. api_sitreps_post ops repr data store
                 = (Inr (400, [(''error'', JStr msg)]), store)))
   \<and> (field_given data ''source'' \<and> field_given data ''lat'' \<and> field_given data ''lon''
      \<and> f_float ops (py_get data ''lat'') = Inr lat
      \<and> f_float ops (py_get data ''lon'') = Inr lon
    \<longrightarrow> (st_state store = Available \<longrightarrow>
           api_sitreps_post ops repr data store
             = (Inr (200, [(''status'', JStr ''success''), (''id'', JInt (st_next_id store))]),
                store \<lparr> st_sitreps := st_sitreps store
                           @ [(''id'', JInt (st_next_id store)) # sitrep_data_of repr data lat lon
                                @ [(''created_at'', JStr (st_now store))]],
                        st_next_id := st_next_id store + 1 \<rparr>))
        \<and> (st_state store = Refusing \<longrightarrow>
           api_sitreps_post ops repr data store
             = (Inr (200, [(''status'', JStr ''error''),
                           (''message'', JStr ''Failed to insert sitrep'')]), store))
        \<and> (st_state store = Unreachable \<longrightarrow>
           api_sitreps_post ops repr data store = (Inl StoreError, store)))"
proof (intro conjI impI)
  assume bad: "\<not> (field_given data ''source'' \<and> field_given data ''lat'' \<and> field_given data ''lon'')
      \<or> (\<exists>e. f_float ops (py_get data ''lat'') = Inl e)
      \<or> (\<exists>e. f_float ops (py_get data ''lon'') = Inl e)"
  show "\<exists>msg. api_sitreps_post ops repr data store = (Inr (400, [(''error'', JStr msg)]), store)"
  proof (cases "first_missing data [''source'', ''lat'', ''lon'']")
    case (Some k)
    then show ?thesis by (simp add: api_sitreps_post_def)
  next
    case None
    with bad first_missing_none[of data]
    have "(\<exists>e. f_float ops (py_get data ''lat'') = Inl e)
        \<or> (\<exists>e. f_float ops (py_get data ''lon'') = Inl e)" by simp
    with None show ?thesis
      by (auto simp: api_sitreps_post_def split: sum.splits)
  qed
next
  assume ok: "field_given data ''source'' \<and> field_given data ''lat'' \<and> field_given data ''lon''
      \<and> f_float ops (py_get data ''lat'') = Inr lat
      \<and> f_float ops (py_get data ''lon'') = Inr lon"
  then have none: "first_missing data [''source'', ''lat'', ''lon''] = None"
    using first_missing_none[of data] by simp
  {
    assume "st_state store = Available"
    with ok none show "api_sitreps_post ops repr data store
        = (Inr (200, [(''status'', JStr ''success''), (''id'', JInt (st_next_id store))]),
           store \<lparr> st_sitreps := st_sitreps store
                      @ [(''id'', JInt (st_next_id store)) # sitrep_data_of repr data lat lon
                           @ [(''created_at'', JStr (st_now store))]],
                   st_next_id := st_next_id store + 1 \<rparr>)"
      by (simp add: api_sitreps_post_def insert_sitrep_def store_insert_def py_index_def Let_def)
  next
    assume "st_state store = Refusing"
    with ok none show "api_sitreps_post ops repr data store
        = (Inr (200, [(''status'', JStr ''error''),
                      (''message'', JStr ''Failed to insert sitrep'')]), store)"
      by (simp add: api_sitreps_post_def insert_sitrep_def store_insert_def)
  next
    assume "st_state store = Unreachable"
    with ok none show "api_sitreps_post ops repr data store = (Inl StoreError, store)"
      by (simp add: api_sitreps_post_def insert_sitrep_def store_insert_def)
  }
qed

theorem create_incident_witness:
  "field_given example_post ''source'' \<and> field_given example_post ''lat''
   \<and> field_given example_post ''lon''
   \<and> f_float fixed_ops (py_get example_post ''lat'') = Inr (- 43000)
   \<and> f_float fixed_ops (py_get example_post ''lon'') = Inr 150000
   \<and> st_state example_store = Available
   \<and> fst (api_sitreps_post fixed_ops example_repr example_post example_store)
       = Inr (200, [(''status'', JStr ''success''), (''id'', JInt 206)])
   \<and> \<not> field_given [(''source'', JStr ''HQ''), (''lat'', JStr '''')] ''lat''
   \<and> (\<exists>msg. api_sitreps_post fixed_ops example_repr
               [(''source'', JStr ''HQ''), (''lat'', JStr '''')] example_store
             = (Inr (400, [(''error'', JStr msg)]), example_store))"
proof -
  have g: "field_given example_post ''source'' \<and> field_given example_post ''lat''
      \<and> field_given example_post ''lon''
      \<and> f_float fixed_ops (py_get example_post ''lat'') = Inr (- 43000)
      \<and> f_float fixed_ops (py_get example_post ''lon'') = Inr 150000"
    by (simp add: field_given_def example_post_def py_get_def fixed_ops_def)
  have a: "st_state example_store = Available" "st_next_id example_store = 206"
    by (simp_all add: example_store_def)
  have b: "\<not> field_given [(''source'', JStr ''HQ''), (''lat'', JStr '''')] ''lat''"
    by (simp add: field_given_def)
  from create_incident[where data = example_post and ops = fixed_ops and lat = "- 43000"
      and lon = 150000 and repr = example_repr and store = example_store]
    g a
  have "fst (api_sitreps_post fixed_ops example_repr example_post example_store)
       = Inr (200, [(''status'', JStr ''success''), (''id'', JInt 206)])"
    by simp
  moreover from create_incident[where data = "[(''source'', JStr ''HQ''), (''lat'', JStr '''')]"
      and ops = fixed_ops and repr = example_repr and store = example_store] b
  have "\<exists>msg. api_sitreps_post fixed_ops example_repr
               [(''source'', JStr ''HQ''), (''lat'', JStr '''')] example_store
             = (Inr (400, [(''error'', JStr msg)]), example_store)"
    by blast
  ultimately show ?thesis using g a b by simp
qed

subsection \<open>C7: deleting incidents by title\<close>

text \<open>
  At the request to delete the title \<open>Patrol report\<close>, the endpoint reports one row
  deleted and takes the row out of the local table, while the remote store, which the read
  endpoints query with \<open>get_sitreps\<close>, still holds the row with that title.
\<close>

lemma sitreps_delete_example:
  "api_sitreps_delete fixed_ops example_repr [(''titles'', JArr [JStr ''Patrol report''])]
     example_world
   = (Inr (200, [(''status'', JStr ''deleted''), (''count'', JInt 1)]),
      example_world \<lparr> w_sqlite := Some [example_titled_rows ! 1] \<rparr>)
   \<and> st_sitreps (w_store (example_world \<lparr> w_sqlite := Some [example_titled_rows ! 1] \<rparr>))
       = example_titled_rows
   \<and> py_get (example_titled_rows ! 0) ''title'' = JStr ''Patrol report''"
  by (simp add: api_sitreps_delete_def py_or_def py_get_def normalize_titles_def py_str_def
        str_strip_def is_space_def title_in_def example_world_def example_titled_rows_def)

text \<open>
  C7 (the code departs from the claim). No request to the delete endpoint changes the
  remote incident store: whatever the titles, the rows the read endpoints query stay as
  they were.
\<close>

theorem sitreps_delete_leaves_incident_store:
  "w_store (snd (api_sitreps_delete ops repr data world)) = w_store world"
  by (simp add: api_sitreps_delete_def Let_def split: json.splits option.splits)

subsection \<open>C1 and C2: writing layers\<close>

lemma upload_outcome:
  "(upload_layer_to_bucket l g b
      = (storage_success (layer_file l),
         b \<lparr> bk_files := AList.update (layer_file l) g (bk_files b) \<rparr>)
    \<and> bk_configured b \<and> bk_accessible b \<and> bk_writable b)
   \<or> (\<exists>msg. upload_layer_to_bucket l g b = (storage_error msg, b))"
  by (cases "bk_configured b"; cases "bk_accessible b"; cases "bk_writable b";
      cases "map_of (bk_files b) (layer_file l)")
     (auto simp: upload_layer_to_bucket_def update_layer_in_bucket_def)

lemma upload_cases:
  obtains (ok) "fst (upload_layer_to_bucket l g b) = storage_success (layer_file l)"
      "snd (upload_layer_to_bucket l g b)
         = b \<lparr> bk_files := AList.update (layer_file l) g (bk_files b) \<rparr>"
      "bk_configured b" "bk_accessible b" "bk_writable b"
  | (fail) msg where "fst (upload_layer_to_bucket l g b) = storage_error msg"
      "snd (upload_layer_to_bucket l g b) = b"
  using upload_outcome[of l g b] by auto

lemma upload_result_nonempty: "fst (upload_layer_to_bucket l g b) \<noteq> []"
  by (cases l g b rule: upload_cases) (simp_all add: storage_success_def storage_error_def)

lemma success_truthy: "py_truthy ops (py_get (storage_success p) ''success'')"
  by (simp add: storage_success_def py_get_def)

lemma error_falsy: "\<not> py_truthy ops (py_get (storage_error msg) ''success'')"
  by (simp add: storage_error_def py_get_def)

lemma upload_again:
  assumes "bk_configured b" "bk_accessible b" "bk_writable b"
  shows "upload_layer_to_bucket l g (b \<lparr> bk_files := AList.update (layer_file l) g (bk_files b) \<rparr>)
       = (storage_success (layer_file l),
          b \<lparr> bk_files := AList.update (layer_file l) g (bk_files b) \<rparr>)"
  using assms
  by (simp add: upload_layer_to_bucket_def update_layer_in_bucket_def update_conv')

lemma replace_features_list:
  assumes "replace_features old (JArr fs) = Inr (Some doc)"
  shows "json_get doc ''features'' = JArr fs \<and> replace_features doc (JArr fs) = Inr (Some doc)"
proof -
  from assms obtain kvs where old: "old = JObj kvs" and k: "map_of kvs ''features'' \<noteq> None"
    and doc: "doc = JObj (AList.update ''features'' (JArr fs) kvs)"
    by (cases old) (auto split: if_splits)
  have "map_of (AList.update ''features'' (JArr fs) kvs) ''features'' = Some (JArr fs)"
    by (simp add: update_conv')
  with doc show ?thesis by (simp add: py_get_def)
qed

lemma update_local_ok:
  assumes "update_local layer (JArr fs) world = ((200, body), world')"
  shows "\<exists>doc. body = [(''status'', JStr ''success''), (''updatedCount'', JInt (int (length fs))),
                        (''storage'', JStr ''local'')]
           \<and> world' = world \<lparr> lw_local :=
                         AList.update (layer_file layer) (Json doc) (lw_local world) \<rparr>
           \<and> json_get doc ''features'' = JArr fs
           \<and> replace_features doc (JArr fs) = Inr (Some doc)"
proof (cases "map_of (lw_local world) (layer_file layer)")
  case None
  let ?doc = "JObj [(''type'', JStr ''FeatureCollection''), (''features'', JArr fs)]"
  have "json_get ?doc ''features'' = JArr fs \<and> replace_features ?doc (JArr fs) = Inr (Some ?doc)"
    by (simp add: py_get_def)
  with None assms show ?thesis by (auto simp: update_local_def Let_def)
next
  case (Some lf)
  with assms obtain old doc where "lf = Json old"
    and r: "replace_features old (JArr fs) = Inr (Some doc)"
    and "body = [(''status'', JStr ''success''), (''updatedCount'', JInt (int (length fs))),
                 (''storage'', JStr ''local'')]"
    and "world' = world \<lparr> lw_local :=
                    AList.update (layer_file layer) (Json doc) (lw_local world) \<rparr>"
    by (auto simp: update_local_def Let_def split: local_file.splits sum.splits option.splits)
  with replace_features_list[OF r] show ?thesis by blast
qed

lemma update_local_again:
  assumes "replace_features doc (JArr fs) = Inr (Some doc)"
  shows "update_local layer (JArr fs)
           (world \<lparr> lw_local := AList.update (layer_file layer) (Json doc) (lw_local world) \<rparr>)
       = ((200, [(''status'', JStr ''success''), (''updatedCount'', JInt (int (length fs))),
                 (''storage'', JStr ''local'')]),
          world \<lparr> lw_local := AList.update (layer_file layer) (Json doc) (lw_local world) \<rparr>)"
  using assms by (simp add: update_local_def Let_def update_conv')

text \<open>
  On the update path a failed upload does lead to the local file, when no local file of
  the layer exists yet.
\<close>

lemma update_layer_falls_back:
  assumes "py_get (fst (upload_layer_to_bucket layer
              (JObj [(''type'', JStr ''FeatureCollection''), (''features'', JArr fs)])
              (lw_bucket world))) ''success'' = JNull"
    and "map_of data ''features'' = Some (JArr fs)"
    and "map_of (lw_local world) (layer_file layer) = None"
  shows "map_of (lw_local (snd (update_layer ops layer data world))) (layer_file layer)
       = Some (Json (JObj [(''type'', JStr ''FeatureCollection''), (''features'', JArr fs)]))"
proof -
  let ?geo = "JObj [(''type'', JStr ''FeatureCollection''), (''features'', JArr fs)]"
  from assms(2) have d: "data \<noteq> []" "map_of data ''features'' \<noteq> None"
    "py_get data ''features'' = JArr fs"
    by (auto simp: py_get_def)
  show ?thesis
  proof (cases layer ?geo "lw_bucket world" rule: upload_cases)
    case ok
    with assms(1) show ?thesis by (simp add: storage_success_def py_get_def)
  next
    case (fail msg)
    have "update_layer ops layer data world = update_local layer (JArr fs) world"
      by (simp add: update_layer_def Let_def split_beta d fail error_falsy)
    then show ?thesis
      using assms(3) by (simp add: update_local_def Let_def update_conv')
  qed
qed

lemmas layer_eval =
  convert_to_geojson_def update_layer_def update_local_def upload_layer_to_bucket_def
  update_layer_in_bucket_def storage_success_def storage_error_def layer_file_def
  py_get_def py_get_default_def Let_def stored_layer_def
  example_offline_def example_online_def example_upload_def example_update_def

text \<open>
  C1 (the code departs from the claim). The conversion endpoint never writes a local file:
  the dict that \<open>upload_layer_to_bucket\<close> returns is never empty, so \<open>if success:\<close> holds
  also for an error. For an upload while the bucket cannot be found, the endpoint answers
  \<open>success\<close> with storage \<open>supabase\<close> and the layer is stored nowhere.
\<close>

theorem convert_never_writes_local:
  "lw_local (snd (convert_to_geojson ops request world)) = lw_local world
   \<and> convert_to_geojson fixed_ops (Some example_upload) example_offline
       = ((200, [(''status'', JStr ''success''), (''geojson_file'', JStr ''roads.geojson''),
                 (''layer_name'', JStr ''roads''), (''storage'', JStr ''supabase''),
                 (''features_count'', JInt 1)]),
          example_offline)
   \<and> py_get (fst (upload_layer_to_bucket ''roads'' (JObj (projr (up_parsed example_upload)))
                     (lw_bucket example_offline))) ''success'' = JNull"
proof (intro conjI)
  show "lw_local (snd (convert_to_geojson ops request world)) = lw_local world"
  proof (cases request)
    case None
    then show ?thesis by (simp add: convert_to_geojson_def)
  next
    case (Some up)
    show ?thesis
    proof (cases "up_parsed up")
      case (Inl e)
      with Some show ?thesis by (simp add: convert_to_geojson_def)
    next
      case (Inr geojson_data)
      have "fst (upload_layer_to_bucket (up_layer_name up) (JObj geojson_data) (lw_bucket world))
          \<noteq> []" by (rule upload_result_nonempty)
      with Some Inr show ?thesis
        by (simp add: convert_to_geojson_def Let_def split_beta split: sum.splits)
    qed
  qed
next
  show "convert_to_geojson fixed_ops (Some example_upload) example_offline
       = ((200, [(''status'', JStr ''success''), (''geojson_file'', JStr ''roads.geojson''),
                 (''layer_name'', JStr ''roads''), (''storage'', JStr ''supabase''),
                 (''features_count'', JInt 1)]),
          example_offline)"
    by (simp add: layer_eval)
next
  show "py_get (fst (upload_layer_to_bucket ''roads'' (JObj (projr (up_parsed example_upload)))
                     (lw_bucket example_offline))) ''success'' = JNull"
    by (simp add: layer_eval)
qed

text \<open>
  C2. Let a call to the layer-update endpoint with a list of features be answered with
  success. Then the document stored for the layer, at the storage the answer names, has
  exactly the submitted features; \<open>updatedCount\<close> is the length of the list; and the same
  call made again is answered the same way and leaves the stores as they are.
\<close>

theorem update_layer_replaces_features:
  assumes "update_layer ops layer data world = ((200, body), world')"
    and "map_of data ''features'' = Some (JArr features)"
  shows "py_get body ''updatedCount'' = JInt (int (length features))
       \<and> (\<exists>doc. stored_layer (py_get body ''storage'') world' layer = Some doc
                 \<and> json_get doc ''features'' = JArr features)
       \<and> update_layer ops layer data world' = ((200, body), world')"
proof -
  let ?geo = "JObj [(''type'', JStr ''FeatureCollection''), (''features'', JArr features)]"
  let ?b = "lw_bucket world"
  from assms(2) have d: "data \<noteq> []" "map_of data ''features'' \<noteq> None"
    "py_get data ''features'' = JArr features"
    by (auto simp: py_get_def)
  show ?thesis
  proof (cases layer ?geo ?b rule: upload_cases)
    case ok
    let ?b' = "?b \<lparr> bk_files := AList.update (layer_file layer) ?geo (bk_files ?b) \<rparr>"
    have "update_layer ops layer data world
        = ((200, [(''status'', JStr ''success''),
                  (''updatedCount'', JInt (int (length features))),
                  (''storage'', JStr ''supabase'')]), world \<lparr> lw_bucket := ?b' \<rparr>)"
      by (simp add: update_layer_def Let_def split_beta d ok(1,2) success_truthy)
    with assms(1)
    have body: "body = [(''status'', JStr ''success''),
                        (''updatedCount'', JInt (int (length features))),
                        (''storage'', JStr ''supabase'')]"
      and w: "world' = world \<lparr> lw_bucket := ?b' \<rparr>"
      by simp_all
    have st: "stored_layer (py_get body ''storage'') world' layer = Some ?geo"
      by (simp add: body w stored_layer_def py_get_def update_conv')
    have again: "upload_layer_to_bucket layer ?geo ?b' = (storage_success (layer_file layer), ?b')"
      using upload_again[OF ok(3,4,5)] .
    have "update_layer ops layer data world' = ((200, body), world')"
      by (simp add: update_layer_def Let_def d w again success_truthy body)
    with st body show ?thesis by (simp add: py_get_def)
  next
    case (fail msg)
    have "update_layer ops layer data world = update_local layer (JArr features) world"
      by (simp add: update_layer_def Let_def split_beta d fail error_falsy)
    with assms(1)
    have loc: "update_local layer (JArr features) world = ((200, body), world')"
      by simp
    from update_local_ok[OF loc] obtain doc where
      body: "body = [(''status'', JStr ''success''),
                     (''updatedCount'', JInt (int (length features))),
                     (''storage'', JStr ''local'')]"
      and w: "world' = world \<lparr> lw_local :=
                         AList.update (layer_file layer) (Json doc) (lw_local world) \<rparr>"
      and f: "json_get doc ''features'' = JArr features"
      and r: "replace_features doc (JArr features) = Inr (Some doc)"
      by blast
    have st: "stored_layer (py_get body ''storage'') world' layer = Some doc"
      by (simp add: body w stored_layer_def py_get_def update_conv')
    have b: "lw_bucket world' = ?b" by (simp add: w)
    have wb: "world' \<lparr> lw_bucket := lw_bucket world \<rparr> = world'" by (simp add: w)
    have "update_layer ops layer data world' = update_local layer (JArr features) world'"
      by (simp add: update_layer_def Let_def split_beta d b fail error_falsy wb)
    with update_local_again[OF r, of layer world]
    have "update_layer ops layer data world' = ((200, body), world')"
      by (simp add: w body)
    with st f body show ?thesis by (simp add: py_get_def)
  qed
qed

lemma example_update_online:
  "update_layer fixed_ops ''roads'' example_update example_online
     = ((200, [(''status'', JStr ''success''), (''updatedCount'', JInt 3),
               (''storage'', JStr ''supabase'')]),
        example_online \<lparr> lw_bucket := (lw_bucket example_online) \<lparr> bk_files :=
          [(''roads.geojson'',
            JObj [(''type'', JStr ''FeatureCollection''),
                  (''features'', JArr [JStr ''road 1'', JStr ''road 2'', JStr ''road 3''])])] \<rparr> \<rparr>)"
  by (simp add: layer_eval)

theorem update_layer_replaces_features_witness:
  "map_of example_update ''features'' = Some (JArr [JStr ''road 1'', JStr ''road 2'', JStr ''road 3''])
   \<and> (\<exists>body world'.
         update_layer fixed_ops ''roads'' example_update example_online = ((200, body), world')
         \<and> py_get body ''updatedCount'' = JInt 3
         \<and> stored_layer (py_get body ''storage'') world' ''roads''
             = Some (JObj [(''type'', JStr ''FeatureCollection''),
                           (''features'', JArr [JStr ''road 1'', JStr ''road 2'', JStr ''road 3''])])
         \<and> update_layer fixed_ops ''roads'' example_update world' = ((200, body), world'))"
proof -
  have f: "map_of example_update ''features''
      = Some (JArr [JStr ''road 1'', JStr ''road 2'', JStr ''road 3''])"
    by (simp add: example_update_def)
  from update_layer_replaces_features[OF example_update_online f] f example_update_online
  show ?thesis
    by (simp add: stored_layer_def py_get_def layer_file_def)
qed

subsection \<open>C9: the shape of the insights\<close>














lemma extracted_insights_Nil [simp]: "extracted_insights loads [] = []"
  by (simp add: extracted_insights_def List.map_filter_def)


























end

